theory Spec2Isabelle
  imports Main "HOL-Library.Word"
begin

section \<open>Go values, reflection and errors\<close>

text \<open>
  The package \<^verbatim>\<open>aerospike\<close> (file \<^verbatim>\<open>Database.go\<close>) is a facade over the Aerospike
  client library. The facade is embedded function by function; what Go does implicitly
  (a panic, a nil result, an in-out pointer argument, a call over the network) is written
  out as a value.
\<close>

text \<open>A bin value of a record, and the kind a struct field declares for it.\<close>

datatype Value =
    IntegerValue int
  | StringValue string
  | BoolValue bool
  | BytesValue "8 word list"
  | ListValue "Value list"
  | MapValue "(string \<times> Value) list"

datatype FieldKind = KInteger | KString | KBool | KBytes | KList | KMap

fun kind_of :: "Value \<Rightarrow> FieldKind" where
  "kind_of (IntegerValue _) = KInteger"
| "kind_of (StringValue _) = KString"
| "kind_of (BoolValue _) = KBool"
| "kind_of (BytesValue _) = KBytes"
| "kind_of (ListValue _) = KList"
| "kind_of (MapValue _) = KMap"

text \<open>Go's zero value of each kind.\<close>

fun zero_value :: "FieldKind \<Rightarrow> Value" where
  "zero_value KInteger = IntegerValue 0"
| "zero_value KString = StringValue []"
| "zero_value KBool = BoolValue False"
| "zero_value KBytes = BytesValue []"
| "zero_value KList = ListValue []"
| "zero_value KMap = MapValue []"

text \<open>
  A struct field: its Go name, its \<^verbatim>\<open>json\<close> tag (the storage name; \<^verbatim>\<open>init\<close> makes the
  library read that tag) and the kind of its value.
\<close>

record StructField =
  Name :: string
  Tag :: "string option"
  Kind :: FieldKind

text \<open>
  \<^verbatim>\<open>reflect.Type\<close>, as far as the facade looks at it: struct types, pointers, channels,
  slices, and the remaining named types.
\<close>

datatype rtype =
    StructType string "StructField list"
  | PtrType rtype
  | ChanType string rtype
  | SliceType rtype
  | BasicType string

fun type_Name :: "rtype \<Rightarrow> string" where
  "type_Name (StructType n _) = n"
| "type_Name (PtrType _) = []"
| "type_Name (ChanType n _) = n"
| "type_Name (SliceType _) = []"
| "type_Name (BasicType n) = n"

fun type_Fields :: "rtype \<Rightarrow> StructField list" where
  "type_Fields (StructType _ fs) = fs"
| "type_Fields _ = []"

text \<open>
  Errors: \<^verbatim>\<open>errors.New(msg)\<close> of the facade itself, and the errors the library hands
  back (from key construction or from a call to the cluster).
\<close>

datatype error = ErrorString string | AerospikeError string

definition errors_New :: "string \<Rightarrow> error" where
  "errors_New msg = ErrorString msg"

text \<open>A Go panic is a result of its own, so that a call that panics is visible.\<close>

datatype panic = RuntimeError string | PanicError error

datatype 'a outcome = Returns 'a | Panics panic

text \<open>
  \<^verbatim>\<open>reflect.TypeOf(example).Elem()\<close>: \<^verbatim>\<open>TypeOf\<close> of a nil interface is nil and the method
  call dereferences it; \<^verbatim>\<open>Elem\<close> panics unless the type is a pointer, channel or slice
  (or an array or map, which this embedding leaves out).
\<close>

fun reflect_Elem :: "rtype option \<Rightarrow> rtype outcome" where
  "reflect_Elem None = Panics (RuntimeError ''invalid memory address or nil pointer dereference'')"
| "reflect_Elem (Some (PtrType t)) = Returns t"
| "reflect_Elem (Some (ChanType _ t)) = Returns t"
| "reflect_Elem (Some (SliceType t)) = Returns t"
| "reflect_Elem (Some _) = Panics (RuntimeError ''reflect: Elem of invalid type'')"

text \<open>An instance of a type: the type and one value per declared field, in order.\<close>

record Object =
  obj_type :: rtype
  obj_values :: "Value list"

text \<open>
  The zero value of a type, and \<^verbatim>\<open>reflect.New(t)\<close>, which allocates one and returns the
  pointer to it (the embedding identifies the pointer with what it points to).
\<close>

definition zero_Object :: "rtype \<Rightarrow> Object" where
  "zero_Object t = \<lparr>obj_type = t, obj_values = map (\<lambda>f. zero_value (Kind f)) (type_Fields t)\<rparr>"

definition reflect_New :: "rtype \<Rightarrow> Object" where
  "reflect_New t = zero_Object t"

text \<open>
  A channel value, and what \<^verbatim>\<open>Scan\<close> can be handed as its sink: \<^verbatim>\<open>All\<close> passes the
  \<^verbatim>\<open>reflect.Value\<close> that wraps the channel, a caller of \<^verbatim>\<open>Scan\<close> passes a channel.
\<close>

datatype Chan = Chan rtype nat

datatype Sink = SinkChan Chan | SinkReflectValue Chan

text \<open>
  \<^verbatim>\<open>reflect.MakeChan(typ, buffer)\<close> panics when \<^verbatim>\<open>typ\<close> is nil and when it is not a
  channel type.
\<close>

fun reflect_MakeChan :: "rtype option \<Rightarrow> nat \<Rightarrow> Chan outcome" where
  "reflect_MakeChan None _ = Panics (RuntimeError ''invalid memory address or nil pointer dereference'')"
| "reflect_MakeChan (Some (ChanType n t)) buffer = Returns (Chan (ChanType n t) buffer)"
| "reflect_MakeChan (Some _) _ = Panics (RuntimeError ''reflect.MakeChan of non-chan type'')"

section \<open>The client library, as the facade sees it\<close>

datatype Key = Key string string string

type_synonym BinMap = "string \<rightharpoonup> Value"

datatype RecordExistsAction = UPDATE | REPLACE

datatype Priority = DEFAULT | LOW | MEDIUM | HIGH

record ClientPolicy =
  ConnectionQueueSize :: int

record WritePolicy =
  RecordExistsAction :: RecordExistsAction

record ScanPolicy =
  Priority :: Priority
  ConcurrentNodes :: bool
  IncludeBinData :: bool

text \<open>Every call of a \<^verbatim>\<open>Client\<close> method that goes to the cluster, with its key arguments.\<close>

datatype Call =
    CallGet Key
  | CallGetObject Key
  | CallPutObject Key
  | CallDelete Key
  | CallExists Key
  | CallBatchGetObjects "Key option list"
  | CallScanAllObjects string string
  | CallTruncate string string

text \<open>
  \<^verbatim>\<open>as.Client\<close>: the default policies \<^verbatim>\<open>NewDatabase\<close> configures, the state behind the
  connection (of a type the library chooses) and the trace of calls made so far.
\<close>

record 's as_Client =
  DefaultWritePolicy :: WritePolicy
  DefaultScanPolicy :: ScanPolicy
  server :: 's
  calls :: "Call list"

text \<open>
  \<^verbatim>\<open>pointers.Interface()\<close> of \<^verbatim>\<open>GetMany\<close>: a slice of pointers into the backing array
  \<^verbatim>\<open>objects\<close>. A pointer is the index of the element it addresses, nil is \<open>None\<close>.
\<close>

record Pointers =
  elem_type :: rtype
  pointers :: "nat option list"
  objects :: "Object list"

text \<open>
  The library is a parameter of the facade. Each method takes the client and returns it
  with its result. The nil policy the facade passes to a write or a scan is \<open>None\<close> (the
  library then takes the client's default, which \<^verbatim>\<open>NewDatabase\<close> configures); the read
  policy, always nil, is left out, and so are the results the facade discards but for the
  \<^verbatim>\<open>found\<close> flags of a batch. A method that fills an object the caller passes by pointer
  returns the object as it left it; \<^verbatim>\<open>BatchGetObjects\<close> receives the pointers and the
  array they point into and returns that array. \<^verbatim>\<open>as.NewKey\<close> returns a key or an error
  (and then a nil key).
\<close>

record 's Library =
  as_NewKey :: "string \<Rightarrow> string \<Rightarrow> string \<Rightarrow> error + Key"
  as_NewClientWithPolicy :: "ClientPolicy \<Rightarrow> string \<Rightarrow> int \<Rightarrow> error + 's as_Client"
  as_Get :: "'s as_Client \<Rightarrow> Key \<Rightarrow> (BinMap option \<times> error option) \<times> 's as_Client"
  as_GetObject :: "'s as_Client \<Rightarrow> Key \<Rightarrow> Object \<Rightarrow> (Object \<times> error option) \<times> 's as_Client"
  as_PutObject ::
    "'s as_Client \<Rightarrow> WritePolicy option \<Rightarrow> Key \<Rightarrow> Object \<Rightarrow> error option \<times> 's as_Client"
  as_Delete :: "'s as_Client \<Rightarrow> WritePolicy option \<Rightarrow> Key \<Rightarrow> (bool \<times> error option) \<times> 's as_Client"
  as_Exists :: "'s as_Client \<Rightarrow> Key \<Rightarrow> (bool \<times> error option) \<times> 's as_Client"
  as_BatchGetObjects ::
    "'s as_Client \<Rightarrow> Key option list \<Rightarrow> nat option list \<Rightarrow> Object list
      \<Rightarrow> ((bool list \<times> Object list) \<times> error option) \<times> 's as_Client"
  as_ScanAllObjects ::
    "'s as_Client \<Rightarrow> ScanPolicy option \<Rightarrow> Sink \<Rightarrow> string \<Rightarrow> string \<Rightarrow> error option \<times> 's as_Client"
  as_Truncate :: "'s as_Client \<Rightarrow> string \<Rightarrow> string \<Rightarrow> error option \<times> 's as_Client"

text \<open>A call of a client method: the library's answer, and the call added to the trace.\<close>

definition traced :: "'s as_Client \<Rightarrow> Call \<Rightarrow> 'a \<times> 's as_Client \<Rightarrow> 'a \<times> 's as_Client" where
  "traced client call answer = (fst answer, (snd answer)\<lparr>calls := calls client @ [call]\<rparr>)"

definition Client_Get ::
  "'s Library \<Rightarrow> 's as_Client \<Rightarrow> Key \<Rightarrow> (BinMap option \<times> error option) \<times> 's as_Client" where
  "Client_Get lib client pk = traced client (CallGet pk) (as_Get lib client pk)"

definition Client_GetObject ::
  "'s Library \<Rightarrow> 's as_Client \<Rightarrow> Key \<Rightarrow> Object \<Rightarrow> (Object \<times> error option) \<times> 's as_Client" where
  "Client_GetObject lib client pk obj =
     traced client (CallGetObject pk) (as_GetObject lib client pk obj)"

definition Client_PutObject ::
  "'s Library \<Rightarrow> 's as_Client \<Rightarrow> WritePolicy option \<Rightarrow> Key \<Rightarrow> Object \<Rightarrow> error option \<times> 's as_Client"
  where
  "Client_PutObject lib client policy pk obj =
     traced client (CallPutObject pk) (as_PutObject lib client policy pk obj)"

definition Client_Delete ::
  "'s Library \<Rightarrow> 's as_Client \<Rightarrow> WritePolicy option \<Rightarrow> Key \<Rightarrow> (bool \<times> error option) \<times> 's as_Client"
  where
  "Client_Delete lib client policy pk =
     traced client (CallDelete pk) (as_Delete lib client policy pk)"

definition Client_Exists ::
  "'s Library \<Rightarrow> 's as_Client \<Rightarrow> Key \<Rightarrow> (bool \<times> error option) \<times> 's as_Client" where
  "Client_Exists lib client pk = traced client (CallExists pk) (as_Exists lib client pk)"

definition Client_BatchGetObjects ::
  "'s Library \<Rightarrow> 's as_Client \<Rightarrow> Key option list \<Rightarrow> nat option list \<Rightarrow> Object list
    \<Rightarrow> ((bool list \<times> Object list) \<times> error option) \<times> 's as_Client" where
  "Client_BatchGetObjects lib client keys interfaceSlice objs =
     traced client (CallBatchGetObjects keys)
       (as_BatchGetObjects lib client keys interfaceSlice objs)"

definition Client_ScanAllObjects ::
  "'s Library \<Rightarrow> 's as_Client \<Rightarrow> ScanPolicy option \<Rightarrow> Sink \<Rightarrow> string \<Rightarrow> string
    \<Rightarrow> error option \<times> 's as_Client" where
  "Client_ScanAllObjects lib client policy channel ns setName =
     traced client (CallScanAllObjects ns setName)
       (as_ScanAllObjects lib client policy channel ns setName)"

definition Client_Truncate ::
  "'s Library \<Rightarrow> 's as_Client \<Rightarrow> string \<Rightarrow> string \<Rightarrow> error option \<times> 's as_Client" where
  "Client_Truncate lib client ns setName =
     traced client (CallTruncate ns setName) (as_Truncate lib client ns setName)"

section \<open>The facade: \<^verbatim>\<open>Database.go\<close>\<close>

record 's Database =
  namespace :: string
  types :: "string \<rightharpoonup> rtype"
  Client :: "'s as_Client"

text \<open>
  The loop of \<^verbatim>\<open>NewDatabase\<close> over the example objects. An example is given by its dynamic
  type (\<open>None\<close> for a nil interface), which is all the loop reads.
\<close>

fun tableTypes_loop :: "rtype option list \<Rightarrow> (string \<rightharpoonup> rtype) \<Rightarrow> (string \<rightharpoonup> rtype) outcome" where
  "tableTypes_loop [] tableTypes = Returns tableTypes"
| "tableTypes_loop (example # tables) tableTypes =
     (case reflect_Elem example of
        Panics p \<Rightarrow> Panics p
      | Returns typeInfo \<Rightarrow> tableTypes_loop tables (tableTypes(type_Name typeInfo \<mapsto> typeInfo)))"

text \<open>\<^verbatim>\<open>as.NewClientPolicy()\<close>; the facade overwrites the one field it sets.\<close>

definition NewClientPolicy :: ClientPolicy where
  "NewClientPolicy = \<lparr>ConnectionQueueSize = 256\<rparr>"

definition NewDatabase ::
  "'s Library \<Rightarrow> string \<Rightarrow> int \<Rightarrow> string \<Rightarrow> rtype option list \<Rightarrow> 's Database outcome" where
  "NewDatabase lib host port ns tables =
     (case tableTypes_loop tables Map.empty of
        Panics p \<Rightarrow> Panics p
      | Returns tableTypes \<Rightarrow>
          (let clientPolicy = NewClientPolicy\<lparr>ConnectionQueueSize := 1024\<rparr> in
           case as_NewClientWithPolicy lib clientPolicy host port of
             Inl err \<Rightarrow> Panics (PanicError err)
           | Inr client \<Rightarrow>
               (let client1 = client\<lparr>DefaultWritePolicy :=
                                (DefaultWritePolicy client)\<lparr>RecordExistsAction := REPLACE\<rparr>\<rparr>;
                    client2 = client1\<lparr>DefaultScanPolicy :=
                                (DefaultScanPolicy client1)\<lparr>Priority := HIGH,
                                  ConcurrentNodes := True, IncludeBinData := True\<rparr>\<rparr>
                in Returns \<lparr>namespace = ns, types = tableTypes, Client = client2\<rparr>)))"

text \<open>
  Every method returns its Go results and the database after the call (\<^verbatim>\<open>Set\<close> and
  \<^verbatim>\<open>All\<close> are \<open>Set_db\<close> and \<open>All_db\<close> here, the parameter \<^verbatim>\<open>id\<close> is \<open>id'\<close>). A result of type
  \<^verbatim>\<open>interface{}\<close> or a map is an option, \<open>None\<close> for nil; \<^verbatim>\<open>error\<close> is an option too.
\<close>

definition Get ::
  "'s Library \<Rightarrow> 's Database \<Rightarrow> string \<Rightarrow> string
    \<Rightarrow> (Object option \<times> error option) \<times> 's Database" where
  "Get lib db table id' =
     (case as_NewKey lib (namespace db) table id' of
        Inl keyErr \<Rightarrow> ((None, Some keyErr), db)
      | Inr pk \<Rightarrow>
          (case types db table of
             None \<Rightarrow>
               ((None, Some (errors_New (''Data type has not been defined for table '' @ table))), db)
           | Some t \<Rightarrow>
               (let obj = reflect_New t;
                    ((obj', err), client) = Client_GetObject lib (Client db) pk obj
                in ((Some obj', err), db\<lparr>Client := client\<rparr>))))"

definition Set_db ::
  "'s Library \<Rightarrow> 's Database \<Rightarrow> string \<Rightarrow> string \<Rightarrow> Object \<Rightarrow> error option \<times> 's Database" where
  "Set_db lib db table id' obj =
     (case as_NewKey lib (namespace db) table id' of
        Inl keyErr \<Rightarrow> (Some keyErr, db)
      | Inr pk \<Rightarrow>
          (let (err, client) = Client_PutObject lib (Client db) None pk obj
           in (err, db\<lparr>Client := client\<rparr>)))"

definition Delete ::
  "'s Library \<Rightarrow> 's Database \<Rightarrow> string \<Rightarrow> string \<Rightarrow> (bool \<times> error option) \<times> 's Database" where
  "Delete lib db table id' =
     (case as_NewKey lib (namespace db) table id' of
        Inl keyErr \<Rightarrow> ((False, Some keyErr), db)
      | Inr pk \<Rightarrow>
          (let (result, client) = Client_Delete lib (Client db) None pk
           in (result, db\<lparr>Client := client\<rparr>)))"

definition Exists ::
  "'s Library \<Rightarrow> 's Database \<Rightarrow> string \<Rightarrow> string \<Rightarrow> (bool \<times> error option) \<times> 's Database" where
  "Exists lib db table id' =
     (case as_NewKey lib (namespace db) table id' of
        Inl keyErr \<Rightarrow> ((False, Some keyErr), db)
      | Inr pk \<Rightarrow>
          (let (result, client) = Client_Exists lib (Client db) pk
           in (result, db\<lparr>Client := client\<rparr>)))"

definition Scan ::
  "'s Library \<Rightarrow> 's Database \<Rightarrow> string \<Rightarrow> Sink \<Rightarrow> error option \<times> 's Database" where
  "Scan lib db table channel =
     (let (err, client) = Client_ScanAllObjects lib (Client db) None channel (namespace db) table
      in (err, db\<lparr>Client := client\<rparr>))"

definition All_db ::
  "'s Library \<Rightarrow> 's Database \<Rightarrow> string \<Rightarrow> ((Sink \<times> error option) \<times> 's Database) outcome" where
  "All_db lib db table =
     (case reflect_MakeChan (types db table) 0 of
        Panics p \<Rightarrow> Panics p
      | Returns channel \<Rightarrow>
          (let (err, db') = Scan lib db table (SinkReflectValue channel)
           in Returns ((SinkReflectValue channel, err), db')))"

definition GetObject ::
  "'s Library \<Rightarrow> 's Database \<Rightarrow> string \<Rightarrow> string \<Rightarrow> Object
    \<Rightarrow> (Object \<times> error option) \<times> 's Database" where
  "GetObject lib db table id' obj =
     (case as_NewKey lib (namespace db) table id' of
        Inl keyErr \<Rightarrow> ((obj, Some keyErr), db)
      | Inr pk \<Rightarrow>
          (let (result, client) = Client_GetObject lib (Client db) pk obj
           in (result, db\<lparr>Client := client\<rparr>)))"

definition GetMap ::
  "'s Library \<Rightarrow> 's Database \<Rightarrow> string \<Rightarrow> string
    \<Rightarrow> (BinMap option \<times> error option) \<times> 's Database" where
  "GetMap lib db table id' =
     (case as_NewKey lib (namespace db) table id' of
        Inl keyErr \<Rightarrow> ((None, Some keyErr), db)
      | Inr pk \<Rightarrow>
          (let ((rec, err), client) = Client_Get lib (Client db) pk;
               db' = db\<lparr>Client := client\<rparr>
           in case err of
                Some e \<Rightarrow> ((None, Some e), db')
              | None \<Rightarrow>
                  (case rec of
                     None \<Rightarrow> ((None, Some (errors_New ''Record not found'')), db')
                   | Some bins \<Rightarrow> ((Some bins, None), db'))))"

text \<open>
  The loop of \<^verbatim>\<open>GetMany\<close>, from \<open>i\<close> on. \<^verbatim>\<open>keys[i], _ = as.NewKey(...)\<close> drops the error
  and stores the key, which is nil when there was one. \<^verbatim>\<open>objects.Index(i).Addr()\<close> is the
  pointer to element \<open>i\<close> of the backing array.
\<close>

function GetMany_loop ::
  "'s Library \<Rightarrow> 's Database \<Rightarrow> string \<Rightarrow> string list \<Rightarrow> nat \<Rightarrow> nat
    \<Rightarrow> Key option list \<times> nat option list \<times> nat option list
    \<Rightarrow> Key option list \<times> nat option list \<times> nat option list" where
  "GetMany_loop lib db table idList num i (keys, ptrs, interfaceSlice) =
     (if i < num then
        (let key = (case as_NewKey lib (namespace db) table (idList ! i) of
                      Inl _ \<Rightarrow> None
                    | Inr k \<Rightarrow> Some k);
             objAddr = i
         in GetMany_loop lib db table idList num (Suc i)
              (keys[i := key], ptrs[i := Some objAddr], interfaceSlice[i := Some objAddr]))
      else (keys, ptrs, interfaceSlice))"
  by pat_completeness auto
termination
  by (relation "measure (\<lambda>(lib, db, table, idList, num, i, state). num - i)") auto

declare GetMany_loop.simps [simp del]

definition GetMany ::
  "'s Library \<Rightarrow> 's Database \<Rightarrow> string \<Rightarrow> string list
    \<Rightarrow> (Pointers option \<times> error option) \<times> 's Database" where
  "GetMany lib db table idList =
     (case types db table of
        None \<Rightarrow>
          ((None, Some (errors_New (''Data type has not been defined for table '' @ table))), db)
      | Some t \<Rightarrow>
          (let num = length idList;
               objs = replicate num (zero_Object t);
               ptrs0 = replicate num None
           in if num = 0
              then ((Some \<lparr>elem_type = PtrType t, pointers = ptrs0, objects = objs\<rparr>, None), db)
              else
                (let (keys, ptrs, interfaceSlice) =
                       GetMany_loop lib db table idList num 0
                         (replicate num None, ptrs0, replicate num None);
                     (((found, objs'), err), client) =
                       Client_BatchGetObjects lib (Client db) keys interfaceSlice objs;
                     db' = db\<lparr>Client := client\<rparr>
                 in case err of
                      Some e \<Rightarrow> ((None, Some e), db')
                    | None \<Rightarrow>
                        ((Some \<lparr>elem_type = PtrType t, pointers = ptrs, objects = objs'\<rparr>, None),
                         db'))))"

definition DeleteTable :: "'s Library \<Rightarrow> 's Database \<Rightarrow> string \<Rightarrow> error option \<times> 's Database" where
  "DeleteTable lib db table =
     (let (err, client) = Client_Truncate lib (Client db) (namespace db) table
      in (err, db\<lparr>Client := client\<rparr>))"

definition Namespace :: "'s Database \<Rightarrow> string \<times> 's Database" where
  "Namespace db = (namespace db, db)"

definition Type :: "'s Database \<Rightarrow> string \<Rightarrow> rtype option \<times> 's Database" where
  "Type db table = (types db table, db)"

definition Types :: "'s Database \<Rightarrow> (string \<rightharpoonup> rtype) \<times> 's Database" where
  "Types db = (types db, db)"

section \<open>A reference library: the collaborator as the specification describes it\<close>

text \<open>
  Modelled from the spec: the Aerospike client library, which is not part of this
  repository. Section 1 of the specification lists the primitives the facade assumes
  (get, put, delete, exists, batchGet aligned by index, scanAll, truncate); sections 4.2
  and 4.3 describe the key builder and the record codec; section 7 the store error. The
  model is an in-memory store of records behind a connection that is online or not.
\<close>

record Store =
  records :: "Key \<rightharpoonup> BinMap"
  online :: bool

text \<open>
  Modelled from the spec: the error kinds of section 7 that the library raises (the client
  library's own error values are not part of the repository).
\<close>

definition StoreError :: error where
  "StoreError = AerospikeError ''StoreError''"

text \<open>Modelled from the spec: the error of a key that cannot be built.\<close>

definition KeyConstructionError :: error where
  "KeyConstructionError = AerospikeError ''KeyConstructionError''"

text \<open>Modelled from the spec: the error of a typed read that finds no record.\<close>

definition RecordNotFoundError :: error where
  "RecordNotFoundError = AerospikeError ''RecordNotFoundError''"

text \<open>Modelled from the spec: the error of a record that does not fit the target type.\<close>

definition DecodeError :: error where
  "DecodeError = AerospikeError ''DecodeError''"

text \<open>
  Modelled from the spec: \<open>Build(namespace, table, id)\<close> of the key builder, which rejects an
  empty id.
\<close>

definition mem_NewKey :: "string \<Rightarrow> string \<Rightarrow> string \<Rightarrow> error + Key" where
  "mem_NewKey ns setName userKey =
     (if userKey = [] then Inl KeyConstructionError else Inr (Key ns setName userKey))"

text \<open>
  Modelled from the spec: \<open>Encode\<close> of the record codec. One bin per declared field that
  carries a storage tag, under the tag's name; untagged fields are left out.
\<close>

fun Encode_fields :: "StructField list \<Rightarrow> Value list \<Rightarrow> BinMap \<Rightarrow> BinMap" where
  "Encode_fields (f # fs) (v # vs) bins =
     Encode_fields fs vs (case Tag f of None \<Rightarrow> bins | Some n \<Rightarrow> bins(n \<mapsto> v))"
| "Encode_fields _ _ bins = bins"

text \<open>Modelled from the spec: \<open>Encode\<close> of an object, over the fields of its type.\<close>

definition Encode :: "Object \<Rightarrow> BinMap" where
  "Encode obj = Encode_fields (type_Fields (obj_type obj)) (obj_values obj) Map.empty"

text \<open>
  Modelled from the spec: \<open>Decode\<close> of the record codec. A tagged field whose bin is in the
  record takes the bin's value; a bin no field names is ignored; a field with no bin keeps
  what the target holds; a bin of the wrong kind is a decode error, and the fields after
  it are not reached.
\<close>

fun Decode_fields :: "BinMap \<Rightarrow> StructField list \<Rightarrow> Value list \<Rightarrow> Value list \<times> error option" where
  "Decode_fields bins (f # fs) (v # vs) =
     (case (case Tag f of None \<Rightarrow> None | Some n \<Rightarrow> bins n) of
        None \<Rightarrow> (let (vs', err) = Decode_fields bins fs vs in (v # vs', err))
      | Some b \<Rightarrow>
          if kind_of b = Kind f
          then (let (vs', err) = Decode_fields bins fs vs in (b # vs', err))
          else (v # vs, Some DecodeError))"
| "Decode_fields bins _ vs = (vs, None)"

text \<open>
  Modelled from the spec: \<open>Decode\<close> of a record into a target object, which it returns as
  it left it, with the error if there was one.
\<close>

definition Decode :: "BinMap \<Rightarrow> Object \<Rightarrow> Object \<times> error option" where
  "Decode bins target =
     (let (vs, err) = Decode_fields bins (type_Fields (obj_type target)) (obj_values target)
      in (target\<lparr>obj_values := vs\<rparr>, err))"

text \<open>
  Modelled from the spec: the connection. \<open>net\<close> says which store, if any, answers at a
  host and port. A new client has the library's default policies (a write merges into the
  stored record) until the facade configures it.
\<close>

definition mem_NewClientWithPolicy ::
  "(string \<Rightarrow> int \<Rightarrow> Store option) \<Rightarrow> ClientPolicy \<Rightarrow> string \<Rightarrow> int \<Rightarrow> error + Store as_Client"
  where
  "mem_NewClientWithPolicy net policy host port =
     (case net host port of
        None \<Rightarrow> Inl StoreError
      | Some store \<Rightarrow>
          Inr \<lparr>DefaultWritePolicy = \<lparr>RecordExistsAction = UPDATE\<rparr>,
               DefaultScanPolicy = \<lparr>Priority = DEFAULT, ConcurrentNodes = True,
                 IncludeBinData = True\<rparr>,
               server = store, calls = []\<rparr>)"

text \<open>Modelled from the spec: \<open>get(key) -> record|absent\<close>.\<close>

definition mem_Get ::
  "Store as_Client \<Rightarrow> Key \<Rightarrow> (BinMap option \<times> error option) \<times> Store as_Client" where
  "mem_Get client pk =
     (if online (server client) then ((records (server client) pk, None), client)
      else ((None, Some StoreError), client))"

text \<open>Modelled from the spec: get followed by \<open>Decode\<close> into the caller's object.\<close>

definition mem_GetObject ::
  "Store as_Client \<Rightarrow> Key \<Rightarrow> Object \<Rightarrow> (Object \<times> error option) \<times> Store as_Client" where
  "mem_GetObject client pk obj =
     (if online (server client) then
        (case records (server client) pk of
           None \<Rightarrow> ((obj, Some RecordNotFoundError), client)
         | Some bins \<Rightarrow> (Decode bins obj, client))
      else ((obj, Some StoreError), client))"

text \<open>
  Modelled from the spec: \<open>put(key, record)\<close> of the encoded object, under the write mode
  of the policy (the client's default for a nil policy): full replace, or merge-update.
\<close>

definition mem_PutObject ::
  "Store as_Client \<Rightarrow> WritePolicy option \<Rightarrow> Key \<Rightarrow> Object \<Rightarrow> error option \<times> Store as_Client"
  where
  "mem_PutObject client policy pk obj =
     (if online (server client) then
        (let p = (case policy of None \<Rightarrow> DefaultWritePolicy client | Some q \<Rightarrow> q);
             store = server client;
             bins = (case RecordExistsAction p of
                       REPLACE \<Rightarrow> Encode obj
                     | UPDATE \<Rightarrow>
                         (case records store pk of
                            None \<Rightarrow> Encode obj
                          | Some old \<Rightarrow> old ++ Encode obj))
         in (None, client\<lparr>server := store\<lparr>records := (records store)(pk \<mapsto> bins)\<rparr>\<rparr>))
      else (Some StoreError, client))"

text \<open>Modelled from the spec: \<open>delete(key) -> existed\<close>.\<close>

definition mem_Delete ::
  "Store as_Client \<Rightarrow> WritePolicy option \<Rightarrow> Key \<Rightarrow> (bool \<times> error option) \<times> Store as_Client"
  where
  "mem_Delete client policy pk =
     (if online (server client) then
        (let store = server client
         in ((records store pk \<noteq> None, None),
             client\<lparr>server := store\<lparr>records := (records store)(pk := None)\<rparr>\<rparr>))
      else ((False, Some StoreError), client))"

text \<open>Modelled from the spec: \<open>exists(key) -> bool\<close>.\<close>

definition mem_Exists :: "Store as_Client \<Rightarrow> Key \<Rightarrow> (bool \<times> error option) \<times> Store as_Client" where
  "mem_Exists client pk =
     (if online (server client) then ((records (server client) pk \<noteq> None, None), client)
      else ((False, Some StoreError), client))"

text \<open>
  Modelled from the spec: \<open>batchGet(keys) -> records aligned by index\<close>. The record of the
  \<open>i\<close>-th key is decoded into the object the \<open>i\<close>-th pointer addresses; a key with no record
  leaves its object as it is; a nil key or a nil or dangling pointer fails the batch.
\<close>

fun mem_batch ::
  "(Key \<rightharpoonup> BinMap) \<Rightarrow> Key option list \<Rightarrow> nat option list \<Rightarrow> Object list
    \<Rightarrow> (bool list \<times> Object list) \<times> error option" where
  "mem_batch recs (Some key # keys) (Some a # ptrs) objs =
     (if a < length objs then
        (case recs key of
           None \<Rightarrow>
             (let ((found, objs'), err) = mem_batch recs keys ptrs objs
              in ((False # found, objs'), err))
         | Some bins \<Rightarrow>
             (case Decode bins (objs ! a) of
                (obj, Some e) \<Rightarrow> (([], objs[a := obj]), Some e)
              | (obj, None) \<Rightarrow>
                  (let ((found, objs'), err) = mem_batch recs keys ptrs (objs[a := obj])
                   in ((True # found, objs'), err))))
      else (([], objs), Some StoreError))"
| "mem_batch recs [] [] objs = (([], objs), None)"
| "mem_batch recs _ _ objs = (([], objs), Some StoreError)"

text \<open>Modelled from the spec: the batch read over the store, when it is online.\<close>

definition mem_BatchGetObjects ::
  "Store as_Client \<Rightarrow> Key option list \<Rightarrow> nat option list \<Rightarrow> Object list
    \<Rightarrow> ((bool list \<times> Object list) \<times> error option) \<times> Store as_Client" where
  "mem_BatchGetObjects client keys ptrs objs =
     (if online (server client) then (mem_batch (records (server client)) keys ptrs objs, client)
      else ((([], objs), Some StoreError), client))"

text \<open>
  Modelled from the spec: \<open>scanAll(namespace, table)\<close>. The scan hands its records to the
  sink while the caller drains it; only its error result is part of this model.
\<close>

definition mem_ScanAllObjects ::
  "Store as_Client \<Rightarrow> ScanPolicy option \<Rightarrow> Sink \<Rightarrow> string \<Rightarrow> string
    \<Rightarrow> error option \<times> Store as_Client" where
  "mem_ScanAllObjects client policy channel ns setName =
     (if online (server client) then (None, client) else (Some StoreError, client))"

text \<open>Modelled from the spec: the keys of a table of a namespace.\<close>

fun in_table :: "string \<Rightarrow> string \<Rightarrow> Key \<Rightarrow> bool" where
  "in_table ns setName (Key n s _) = (n = ns \<and> s = setName)"

text \<open>Modelled from the spec: \<open>truncate(namespace, table)\<close> removes every record of the table.\<close>

definition mem_Truncate ::
  "Store as_Client \<Rightarrow> string \<Rightarrow> string \<Rightarrow> error option \<times> Store as_Client" where
  "mem_Truncate client ns setName =
     (if online (server client) then
        (let store = server client
         in (None, client\<lparr>server := store\<lparr>records :=
               (\<lambda>k. if in_table ns setName k then None else records store k)\<rparr>\<rparr>))
      else (Some StoreError, client))"

text \<open>Modelled from the spec: the reference library, over a network \<open>net\<close>.\<close>

definition mem_Library :: "(string \<Rightarrow> int \<Rightarrow> Store option) \<Rightarrow> Store Library" where
  "mem_Library net =
     \<lparr>as_NewKey = mem_NewKey,
      as_NewClientWithPolicy = mem_NewClientWithPolicy net,
      as_Get = mem_Get,
      as_GetObject = mem_GetObject,
      as_PutObject = mem_PutObject,
      as_Delete = mem_Delete,
      as_Exists = mem_Exists,
      as_BatchGetObjects = mem_BatchGetObjects,
      as_ScanAllObjects = mem_ScanAllObjects,
      as_Truncate = mem_Truncate\<rparr>"

section \<open>Predicates of the properties, and example data\<close>

text \<open>The registry and the namespace of \<open>db'\<close> are those of \<open>db\<close>.\<close>

definition same_registry :: "'s Database \<Rightarrow> 's Database \<Rightarrow> bool" where
  "same_registry db db' = (namespace db' = namespace db \<and> types db' = types db)"

text \<open>
  The README's example: a struct \<^verbatim>\<open>User\<close> with \<^verbatim>\<open>json\<close> tags (and one field without),
  a second struct with fewer fields, and a named channel type. The store at
  \<^verbatim>\<open>127.0.0.1:3000\<close> is online and empty; nothing answers anywhere else.
\<close>

definition User :: rtype where
  "User = StructType ''User''
     [\<lparr>Name = ''FirstName'', Tag = Some ''firstName'', Kind = KString\<rparr>,
      \<lparr>Name = ''Age'', Tag = Some ''age'', Kind = KInteger\<rparr>,
      \<lparr>Name = ''session'', Tag = None, Kind = KString\<rparr>]"

definition Guest :: rtype where
  "Guest = StructType ''Guest'' [\<lparr>Name = ''FirstName'', Tag = Some ''firstName'', Kind = KString\<rparr>]"

definition UserStream :: rtype where
  "UserStream = ChanType ''UserStream'' (PtrType User)"

definition ann :: Object where
  "ann = \<lparr>obj_type = User,
           obj_values = [StringValue ''Ann'', IntegerValue 30, StringValue ''s1'']\<rparr>"

definition bob :: Object where
  "bob = \<lparr>obj_type = Guest, obj_values = [StringValue ''Bob'']\<rparr>"

definition example_net :: "string \<Rightarrow> int \<Rightarrow> Store option" where
  "example_net host port =
     (if host = ''127.0.0.1'' \<and> port = 3000 then Some \<lparr>records = Map.empty, online = True\<rparr>
      else None)"

definition example_lib :: "Store Library" where
  "example_lib = mem_Library example_net"

definition example_types :: "string \<rightharpoonup> rtype" where
  "example_types = [''User'' \<mapsto> User, ''UserStream'' \<mapsto> UserStream]"

definition example_client :: "Store as_Client" where
  "example_client =
     \<lparr>DefaultWritePolicy = \<lparr>RecordExistsAction = REPLACE\<rparr>,
      DefaultScanPolicy = \<lparr>Priority = HIGH, ConcurrentNodes = True, IncludeBinData = True\<rparr>,
      server = \<lparr>records = Map.empty, online = True\<rparr>, calls = []\<rparr>"

definition example_db :: "Store Database" where
  "example_db = \<lparr>namespace = ''test'', types = example_types, Client = example_client\<rparr>"

text \<open>
  The error \<^verbatim>\<open>Get\<close> and \<^verbatim>\<open>GetMany\<close> build for a table with no registered type, and the key
  the loop of \<^verbatim>\<open>GetMany\<close> stores for an id (nil when key construction failed).
\<close>

definition TypeNotRegisteredError :: "string \<Rightarrow> error" where
  "TypeNotRegisteredError table =
     errors_New (''Data type has not been defined for table '' @ table)"

definition key_or_nil :: "'s Library \<Rightarrow> 's Database \<Rightarrow> string \<Rightarrow> string \<Rightarrow> Key option" where
  "key_or_nil lib db table id' =
     (case as_NewKey lib (namespace db) table id' of Inl _ \<Rightarrow> None | Inr k \<Rightarrow> Some k)"

text \<open>
  What the reference library leaves in an object after reading a key into it: the record
  decoded into the object, or the object as it was when the store has no such record.
  For an id of a table whose registered type is \<open>t\<close>, the object is a zero value of \<open>t\<close>.
\<close>

definition decode_into :: "(Key \<rightharpoonup> BinMap) \<Rightarrow> Key \<Rightarrow> Object \<Rightarrow> Object" where
  "decode_into recs k obj =
     (case recs k of None \<Rightarrow> obj | Some bins \<Rightarrow> fst (Decode bins obj))"

text \<open>
  The record under a key, if the store has one, decodes into the object without error.
\<close>

definition decodes :: "(Key \<rightharpoonup> BinMap) \<Rightarrow> Key \<Rightarrow> Object \<Rightarrow> bool" where
  "decodes recs k obj =
     (case recs k of None \<Rightarrow> True | Some bins \<Rightarrow> snd (Decode bins obj) = None)"

definition decoded_record :: "Store Database \<Rightarrow> rtype \<Rightarrow> string \<Rightarrow> string \<Rightarrow> Object" where
  "decoded_record db t table id' =
     decode_into (records (server (Client db))) (Key (namespace db) table id') (zero_Object t)"

text \<open>The example database with one stored user.\<close>

definition ann_bins :: BinMap where
  "ann_bins = [''firstName'' \<mapsto> StringValue ''Ann'', ''age'' \<mapsto> IntegerValue 30]"

definition stocked_db :: "Store Database" where
  "stocked_db = example_db\<lparr>Client := example_client\<lparr>server :=
     \<lparr>records = [Key ''test'' ''User'' ''1'' \<mapsto> ann_bins], online = True\<rparr>\<rparr>\<rparr>"

text \<open>The example database with its store offline.\<close>

definition unplugged_db :: "Store Database" where
  "unplugged_db = example_db\<lparr>Client := example_client\<lparr>server :=
     \<lparr>records = Map.empty, online = False\<rparr>\<rparr>\<rparr>"

text \<open>
  The examples the README registers are nil pointers to structs, \<^verbatim>\<open>(*User)(nil)\<close>: the
  dynamic type of such an example, and the registered type it leads to.
\<close>

fun struct_pointer :: "rtype option \<Rightarrow> bool" where
  "struct_pointer (Some (PtrType (StructType _ _))) = True"
| "struct_pointer _ = False"

fun is_struct :: "rtype \<Rightarrow> bool" where
  "is_struct (StructType _ _) = True"
| "is_struct _ = False"

fun is_chan :: "rtype \<Rightarrow> bool" where
  "is_chan (ChanType _ _) = True"
| "is_chan _ = False"

text \<open>
  The round trip: the storage names a type declares; an instance of a type (one value of
  the declared kind per field); two value lists that agree on every tagged field; and the
  values of an object with every untagged field reset to zero.
\<close>

fun storage_names :: "StructField list \<Rightarrow> string list" where
  "storage_names [] = []"
| "storage_names (f # fs) =
     (case Tag f of None \<Rightarrow> storage_names fs | Some n \<Rightarrow> n # storage_names fs)"

definition instance_of :: "rtype \<Rightarrow> Object \<Rightarrow> bool" where
  "instance_of t obj =
     (obj_type obj = t \<and> map kind_of (obj_values obj) = map Kind (type_Fields t))"

fun same_tagged :: "StructField list \<Rightarrow> Value list \<Rightarrow> Value list \<Rightarrow> bool" where
  "same_tagged (f # fs) (v # vs) (w # ws) = ((Tag f = None \<or> v = w) \<and> same_tagged fs vs ws)"
| "same_tagged [] [] [] = True"
| "same_tagged _ _ _ = False"

fun tagged_values :: "StructField list \<Rightarrow> Value list \<Rightarrow> Value list" where
  "tagged_values (f # fs) (v # vs) =
     (case Tag f of None \<Rightarrow> zero_value (Kind f) | Some _ \<Rightarrow> v) # tagged_values fs vs"
| "tagged_values _ _ = []"

text \<open>
  A struct whose two fields carry the same storage tag, an instance of it, and the
  database \<^verbatim>\<open>NewDatabase\<close> builds when that struct is registered.
\<close>

definition Twin :: rtype where
  "Twin = StructType ''Twin''
     [\<lparr>Name = ''Left'', Tag = Some ''x'', Kind = KString\<rparr>,
      \<lparr>Name = ''Right'', Tag = Some ''x'', Kind = KString\<rparr>]"

definition pair_ab :: Object where
  "pair_ab = \<lparr>obj_type = Twin, obj_values = [StringValue ''a'', StringValue ''b'']\<rparr>"

definition pair_db :: "Store Database" where
  "pair_db = example_db\<lparr>types := [''Twin'' \<mapsto> Twin]\<rparr>"



section \<open>The example database\<close>

lemmas example_defs =
  example_lib_def mem_Library_def example_db_def example_client_def example_types_def
  example_net_def User_def Guest_def UserStream_def

lemma NewDatabase_example:
  "NewDatabase example_lib ''127.0.0.1'' 3000 ''test''
     [Some (PtrType User), Some (PtrType UserStream)] = Returns example_db"
  by (simp add: NewDatabase_def mem_NewClientWithPolicy_def NewClientPolicy_def example_defs)

lemma All_example:
  "All_db example_lib example_db ''UserStream'' =
     Returns ((SinkReflectValue (Chan UserStream 0), None),
       example_db\<lparr>Client := example_client\<lparr>calls := [CallScanAllObjects ''test'' ''UserStream'']\<rparr>\<rparr>)"
  by (simp add: All_db_def Scan_def Client_ScanAllObjects_def traced_def
      mem_ScanAllObjects_def example_defs)

section \<open>The reference library behind the facade\<close>

lemma mem_Set_db:
  assumes "id' \<noteq> []" and "online (server (Client db))"
  shows "Set_db (mem_Library net) db table id' obj =
     (None, db\<lparr>Client := (Client db)\<lparr>
        server := (server (Client db))\<lparr>records := (records (server (Client db)))
          (Key (namespace db) table id' \<mapsto>
            (case RecordExistsAction (DefaultWritePolicy (Client db)) of
               REPLACE \<Rightarrow> Encode obj
             | UPDATE \<Rightarrow>
                 (case records (server (Client db)) (Key (namespace db) table id') of
                    None \<Rightarrow> Encode obj
                  | Some old \<Rightarrow> old ++ Encode obj)))\<rparr>,
        calls := calls (Client db) @ [CallPutObject (Key (namespace db) table id')]\<rparr>\<rparr>)"
  using assms
  by (simp add: Set_db_def Client_PutObject_def traced_def mem_Library_def mem_NewKey_def
      mem_PutObject_def Let_def)

lemma mem_Delete:
  assumes "id' \<noteq> []" and "online (server (Client db))"
  shows "Delete (mem_Library net) db table id' =
     ((records (server (Client db)) (Key (namespace db) table id') \<noteq> None, None),
      db\<lparr>Client := (Client db)\<lparr>
        server := (server (Client db))\<lparr>records := (records (server (Client db)))
          (Key (namespace db) table id' := None)\<rparr>,
        calls := calls (Client db) @ [CallDelete (Key (namespace db) table id')]\<rparr>\<rparr>)"
  using assms
  by (simp add: Delete_def Client_Delete_def traced_def mem_Library_def mem_NewKey_def
      mem_Delete_def Let_def)

lemma mem_GetMap:
  assumes "id' \<noteq> []" and "online (server (Client db))"
  shows "fst (GetMap (mem_Library net) db table id') =
     (case records (server (Client db)) (Key (namespace db) table id') of
        None \<Rightarrow> (None, Some (errors_New ''Record not found''))
      | Some bins \<Rightarrow> (Some bins, None))"
  using assms
  by (simp add: GetMap_def Client_Get_def traced_def mem_Library_def mem_NewKey_def
      mem_Get_def Let_def split: option.split)

lemma mem_Get:
  assumes "id' \<noteq> []" and "online (server (Client db))" and "types db table = Some t"
    and "records (server (Client db)) (Key (namespace db) table id') = Some bins"
  shows "fst (Get (mem_Library net) db table id') =
     (Some (fst (Decode bins (zero_Object t))), snd (Decode bins (zero_Object t)))"
  using assms
  by (simp add: Get_def Client_GetObject_def traced_def mem_Library_def mem_NewKey_def
      mem_GetObject_def reflect_New_def Let_def split: prod.split)

lemma mem_Set_REPLACE:
  assumes "id' \<noteq> []" and "online (server (Client db))"
    and "RecordExistsAction (DefaultWritePolicy (Client db)) = REPLACE"
  shows "fst (Set_db (mem_Library net) db table id' obj) = None"
    and "online (server (Client (snd (Set_db (mem_Library net) db table id' obj))))"
    and "namespace (snd (Set_db (mem_Library net) db table id' obj)) = namespace db"
    and "DefaultWritePolicy (Client (snd (Set_db (mem_Library net) db table id' obj)))
      = DefaultWritePolicy (Client db)"
    and "records (server (Client (snd (Set_db (mem_Library net) db table id' obj))))
        (Key (namespace db) table id') = Some (Encode obj)"
  using assms by (simp_all add: mem_Set_db)

section \<open>The registry and the namespace are fixed at construction\<close>

lemma same_registry_Client: "same_registry db (db\<lparr>Client := c\<rparr>)"
  by (simp add: same_registry_def)

lemma same_registry_refl: "same_registry db db"
  by (simp add: same_registry_def)

lemma NewDatabase_registry:
  assumes "NewDatabase lib host port ns tables = Returns db"
  shows "namespace db = ns \<and> tableTypes_loop tables Map.empty = Returns (types db)"
  using assms by (auto simp add: NewDatabase_def Let_def split: outcome.splits sum.splits)

lemma Get_same_registry: "same_registry db (snd (Get lib db table id'))"
  by (simp add: Get_def same_registry_Client same_registry_refl
      split: sum.split option.split prod.split)

lemma Set_same_registry: "same_registry db (snd (Set_db lib db table id' obj))"
  by (simp add: Set_db_def same_registry_Client same_registry_refl
      split: sum.split prod.split)

lemma Delete_same_registry: "same_registry db (snd (Delete lib db table id'))"
  by (simp add: Delete_def same_registry_Client same_registry_refl
      split: sum.split prod.split)

lemma Exists_same_registry: "same_registry db (snd (Exists lib db table id'))"
  by (simp add: Exists_def same_registry_Client same_registry_refl
      split: sum.split prod.split)

lemma Scan_same_registry: "same_registry db (snd (Scan lib db table channel))"
  by (simp add: Scan_def same_registry_Client split: prod.split)

lemma All_same_registry:
  assumes "All_db lib db table = Returns r"
  shows "same_registry db (snd r)"
proof -
  from assms obtain channel where
    "r = ((SinkReflectValue channel, fst (Scan lib db table (SinkReflectValue channel))),
          snd (Scan lib db table (SinkReflectValue channel)))"
    by (auto simp add: All_db_def split: outcome.splits prod.splits)
  then show ?thesis
    by (simp add: Scan_same_registry)
qed

lemma GetObject_same_registry: "same_registry db (snd (GetObject lib db table id' obj))"
  by (simp add: GetObject_def same_registry_Client same_registry_refl
      split: sum.split prod.split)

lemma GetMap_same_registry: "same_registry db (snd (GetMap lib db table id'))"
  by (simp add: GetMap_def Let_def same_registry_Client same_registry_refl
      split: sum.split option.split prod.split)

lemma GetMany_same_registry: "same_registry db (snd (GetMany lib db table idList))"
  by (simp add: GetMany_def Let_def same_registry_Client same_registry_refl
      split: option.split prod.split)

lemma DeleteTable_same_registry: "same_registry db (snd (DeleteTable lib db table))"
  by (simp add: DeleteTable_def same_registry_Client split: prod.split)

text \<open>
  Claim C9. \<^verbatim>\<open>NewDatabase\<close> stores the namespace it is given and the registry its loop
  builds from the examples. After that, whatever the library does, every public method
  (\<^verbatim>\<open>Get\<close>, \<^verbatim>\<open>Set\<close>, \<^verbatim>\<open>Delete\<close>, \<^verbatim>\<open>Exists\<close>, \<^verbatim>\<open>Scan\<close>, \<^verbatim>\<open>All\<close> when it returns, \<^verbatim>\<open>GetObject\<close>,
  \<^verbatim>\<open>GetMap\<close>, \<^verbatim>\<open>GetMany\<close>, \<^verbatim>\<open>DeleteTable\<close>) leaves the database with the same registry and
  the same namespace; \<^verbatim>\<open>Type\<close>, \<^verbatim>\<open>Types\<close> and \<^verbatim>\<open>Namespace\<close> read the registry or the
  namespace and leave the whole database, the trace of calls included, as it was.
\<close>

theorem registry_and_namespace_fixed:
  "(\<forall>db0. NewDatabase lib host port ns tables = Returns db0 \<longrightarrow>
      namespace db0 = ns \<and> tableTypes_loop tables Map.empty = Returns (types db0))
   \<and> same_registry db (snd (Get lib db table id'))
   \<and> same_registry db (snd (Set_db lib db table id' obj))
   \<and> same_registry db (snd (Delete lib db table id'))
   \<and> same_registry db (snd (Exists lib db table id'))
   \<and> same_registry db (snd (Scan lib db table channel))
   \<and> (\<forall>r. All_db lib db table = Returns r \<longrightarrow> same_registry db (snd r))
   \<and> same_registry db (snd (GetObject lib db table id' obj))
   \<and> same_registry db (snd (GetMap lib db table id'))
   \<and> same_registry db (snd (GetMany lib db table idList))
   \<and> same_registry db (snd (DeleteTable lib db table))
   \<and> Type db table = (types db table, db)
   \<and> Types db = (types db, db)
   \<and> Namespace db = (namespace db, db)"
proof -
  have construction: "\<forall>db0. NewDatabase lib host port ns tables = Returns db0 \<longrightarrow>
      namespace db0 = ns \<and> tableTypes_loop tables Map.empty = Returns (types db0)"
    using NewDatabase_registry by blast
  have stream: "\<forall>r. All_db lib db table = Returns r \<longrightarrow> same_registry db (snd r)"
    using All_same_registry by blast
  have reads: "Type db table = (types db table, db) \<and> Types db = (types db, db)
      \<and> Namespace db = (namespace db, db)"
    by (simp add: Type_def Types_def Namespace_def)
  show ?thesis
    by (intro conjI)
      (rule construction stream Get_same_registry Set_same_registry Delete_same_registry
        Exists_same_registry Scan_same_registry GetObject_same_registry GetMap_same_registry
        GetMany_same_registry DeleteTable_same_registry reads [THEN conjunct1]
        reads [THEN conjunct2, THEN conjunct1] reads [THEN conjunct2, THEN conjunct2])+
qed

theorem registry_and_namespace_fixed_witness:
  "NewDatabase example_lib ''127.0.0.1'' 3000 ''test''
     [Some (PtrType User), Some (PtrType UserStream)] = Returns example_db
   \<and> namespace example_db = ''test''
   \<and> tableTypes_loop [Some (PtrType User), Some (PtrType UserStream)] Map.empty
       = Returns (types example_db)
   \<and> All_db example_lib example_db ''UserStream'' =
       Returns ((SinkReflectValue (Chan UserStream 0), None),
         example_db\<lparr>Client := example_client\<lparr>calls := [CallScanAllObjects ''test'' ''UserStream'']\<rparr>\<rparr>)
   \<and> same_registry example_db
       (example_db\<lparr>Client := example_client\<lparr>calls := [CallScanAllObjects ''test'' ''UserStream'']\<rparr>\<rparr>)"
proof -
  note fixed = registry_and_namespace_fixed [of example_lib "''127.0.0.1''" 3000 "''test''"
      "[Some (PtrType User), Some (PtrType UserStream)]" example_db "''UserStream''"]
  note construction = fixed [THEN conjunct1, rule_format, OF NewDatabase_example]
  note stream = fixed [THEN conjunct2, THEN conjunct2, THEN conjunct2, THEN conjunct2,
      THEN conjunct2, THEN conjunct2, THEN conjunct1, rule_format, OF All_example]
  from construction stream show ?thesis
    using NewDatabase_example All_example by simp
qed

section \<open>The registry guard\<close>

lemma GetMany_unregistered:
  assumes "types db table = None"
  shows "GetMany lib db table idList = ((None, Some (TypeNotRegisteredError table)), db)"
  using assms by (simp add: GetMany_def TypeNotRegisteredError_def)

lemma Get_unregistered:
  assumes "types db table = None" and "as_NewKey lib (namespace db) table id' = Inr pk"
  shows "Get lib db table id' = ((None, Some (TypeNotRegisteredError table)), db)"
  using assms by (simp add: Get_def TypeNotRegisteredError_def)

lemma Get_unregistered_fails:
  assumes "types db table = None"
  shows "\<exists>e. Get lib db table id' = ((None, Some e), db)"
  using assms by (cases "as_NewKey lib (namespace db) table id'") (simp_all add: Get_def)

lemma Set_any_registry:
  "Set_db lib (db\<lparr>types := reg\<rparr>) table id' obj =
     (fst (Set_db lib db table id' obj), (snd (Set_db lib db table id' obj))\<lparr>types := reg\<rparr>)"
  by (simp add: Set_db_def split: sum.split prod.split)

lemma Delete_any_registry:
  "Delete lib (db\<lparr>types := reg\<rparr>) table id' =
     (fst (Delete lib db table id'), (snd (Delete lib db table id'))\<lparr>types := reg\<rparr>)"
  by (simp add: Delete_def split: sum.split prod.split)

lemma Exists_any_registry:
  "Exists lib (db\<lparr>types := reg\<rparr>) table id' =
     (fst (Exists lib db table id'), (snd (Exists lib db table id'))\<lparr>types := reg\<rparr>)"
  by (simp add: Exists_def split: sum.split prod.split)

lemma GetObject_any_registry:
  "GetObject lib (db\<lparr>types := reg\<rparr>) table id' obj =
     (fst (GetObject lib db table id' obj), (snd (GetObject lib db table id' obj))\<lparr>types := reg\<rparr>)"
  by (simp add: GetObject_def split: sum.split prod.split)

lemma GetMap_any_registry:
  "GetMap lib (db\<lparr>types := reg\<rparr>) table id' =
     (fst (GetMap lib db table id'), (snd (GetMap lib db table id'))\<lparr>types := reg\<rparr>)"
  by (simp add: GetMap_def Let_def split: sum.split prod.split option.split)

text \<open>
  Claim C3. Let \<open>table\<close> have no entry in the registry. \<^verbatim>\<open>GetMany\<close> fails with the error
  that names the unregistered table, for every id list, and returns the database as it
  was: nothing was read. \<^verbatim>\<open>Get\<close> does the same for every id that key construction
  accepts (it builds the key first; for any id it fails with a nil result and no call).
  \<^verbatim>\<open>Set\<close>, \<^verbatim>\<open>Delete\<close>, \<^verbatim>\<open>Exists\<close>, \<^verbatim>\<open>GetObject\<close> and \<^verbatim>\<open>GetMap\<close> do not look at the
  registry: with any other registry \<open>reg\<close> in place of the database's they return the same
  results and leave the same client, so none of them fails for lack of registration.
\<close>

theorem unregistered_type_guard:
  assumes "types db table = None"
  shows "GetMany lib db table idList = ((None, Some (TypeNotRegisteredError table)), db)
    \<and> (\<forall>pk. as_NewKey lib (namespace db) table id' = Inr pk \<longrightarrow>
          Get lib db table id' = ((None, Some (TypeNotRegisteredError table)), db))
    \<and> (\<exists>e. Get lib db table id' = ((None, Some e), db))
    \<and> Set_db lib (db\<lparr>types := reg\<rparr>) table id' obj =
        (fst (Set_db lib db table id' obj), (snd (Set_db lib db table id' obj))\<lparr>types := reg\<rparr>)
    \<and> Delete lib (db\<lparr>types := reg\<rparr>) table id' =
        (fst (Delete lib db table id'), (snd (Delete lib db table id'))\<lparr>types := reg\<rparr>)
    \<and> Exists lib (db\<lparr>types := reg\<rparr>) table id' =
        (fst (Exists lib db table id'), (snd (Exists lib db table id'))\<lparr>types := reg\<rparr>)
    \<and> GetObject lib (db\<lparr>types := reg\<rparr>) table id' obj =
        (fst (GetObject lib db table id' obj),
         (snd (GetObject lib db table id' obj))\<lparr>types := reg\<rparr>)
    \<and> GetMap lib (db\<lparr>types := reg\<rparr>) table id' =
        (fst (GetMap lib db table id'), (snd (GetMap lib db table id'))\<lparr>types := reg\<rparr>)"
proof -
  have many: "GetMany lib db table idList = ((None, Some (TypeNotRegisteredError table)), db)"
    using assms by (rule GetMany_unregistered)
  have one: "\<forall>pk. as_NewKey lib (namespace db) table id' = Inr pk \<longrightarrow>
      Get lib db table id' = ((None, Some (TypeNotRegisteredError table)), db)"
    using assms Get_unregistered by blast
  have fails: "\<exists>e. Get lib db table id' = ((None, Some e), db)"
    using assms by (rule Get_unregistered_fails)
  show ?thesis
    by (intro conjI)
      (rule many one fails Set_any_registry Delete_any_registry Exists_any_registry
        GetObject_any_registry GetMap_any_registry)+
qed

lemma example_Post_unregistered: "types example_db ''Post'' = None"
  by (simp add: example_defs)

lemma example_NewKey: "as_NewKey example_lib ''test'' table ''1'' = Inr (Key ''test'' table ''1'')"
  by (simp add: example_defs mem_NewKey_def)

theorem unregistered_type_guard_witness:
  "types example_db ''Post'' = None
   \<and> GetMany example_lib example_db ''Post'' [''1'', ''2'']
       = ((None, Some (TypeNotRegisteredError ''Post'')), example_db)
   \<and> Get example_lib example_db ''Post'' ''1''
       = ((None, Some (TypeNotRegisteredError ''Post'')), example_db)
   \<and> fst (Set_db example_lib example_db ''Post'' ''1'' ann) = None
   \<and> fst (Set_db example_lib (example_db\<lparr>types := example_types(''Post'' \<mapsto> User)\<rparr>)
         ''Post'' ''1'' ann) = None"
proof -
  note guard = unregistered_type_guard [OF example_Post_unregistered,
      of example_lib "[''1'', ''2'']" "''1''" "example_types(''Post'' \<mapsto> User)" ann]
  have key: "as_NewKey example_lib (namespace example_db) ''Post'' ''1''
      = Inr (Key ''test'' ''Post'' ''1'')"
    using example_NewKey by (simp add: example_db_def)
  note many = guard [THEN conjunct1]
  note one = guard [THEN conjunct2, THEN conjunct1, rule_format, OF key]
  note set = guard [THEN conjunct2, THEN conjunct2, THEN conjunct2, THEN conjunct1]
  have stored: "fst (Set_db example_lib example_db ''Post'' ''1'' ann) = None"
    by (simp add: Set_db_def Client_PutObject_def traced_def mem_PutObject_def mem_NewKey_def
        example_defs)
  from set stored
  have "fst (Set_db example_lib (example_db\<lparr>types := example_types(''Post'' \<mapsto> User)\<rparr>)
      ''Post'' ''1'' ann) = None"
    by simp
  with many one stored show ?thesis
    using example_Post_unregistered by simp
qed


section \<open>The loop of \<^verbatim>\<open>GetMany\<close>\<close>

lemma GetMany_loop_from:
  assumes "i \<le> num" and "num = length idList"
    and "length keys = num" and "length ptrs = num" and "length interfaceSlice = num"
  shows "GetMany_loop lib db table idList num i (keys, ptrs, interfaceSlice) =
     (take i keys @ map (key_or_nil lib db table) (drop i idList),
      take i ptrs @ map Some [i..<num],
      take i interfaceSlice @ map Some [i..<num])"
  using assms
proof (induction lib db table idList num i "(keys, ptrs, interfaceSlice)"
    arbitrary: keys ptrs interfaceSlice rule: GetMany_loop.induct)
  case (1 lib db table idList num i keys ptrs interfaceSlice)
  show ?case
  proof (cases "i < num")
    case False
    with "1.prems" have "i = num" by simp
    with "1.prems" show ?thesis
      by (simp add: GetMany_loop.simps)
  next
    case True
    let ?key = "key_or_nil lib db table (idList ! i)"
    have step: "GetMany_loop lib db table idList num i (keys, ptrs, interfaceSlice) =
        GetMany_loop lib db table idList num (Suc i)
          (keys[i := ?key], ptrs[i := Some i], interfaceSlice[i := Some i])"
      using True by (simp add: GetMany_loop.simps [of _ _ _ _ _ i] key_or_nil_def Let_def)
    have ih: "GetMany_loop lib db table idList num (Suc i)
          (keys[i := ?key], ptrs[i := Some i], interfaceSlice[i := Some i]) =
        (take (Suc i) (keys[i := ?key]) @ map (key_or_nil lib db table) (drop (Suc i) idList),
         take (Suc i) (ptrs[i := Some i]) @ map Some [Suc i..<num],
         take (Suc i) (interfaceSlice[i := Some i]) @ map Some [Suc i..<num])"
      using True "1.prems"
      by (intro "1.hyps" [OF True, of ?key i]) (simp_all add: key_or_nil_def)
    have keys: "take (Suc i) (keys[i := ?key]) @ map (key_or_nil lib db table) (drop (Suc i) idList)
        = take i keys @ map (key_or_nil lib db table) (drop i idList)"
      using True "1.prems"
      by (simp add: take_Suc_conv_app_nth Cons_nth_drop_Suc [symmetric])
    have ptrs: "take (Suc i) (ptrs[i := Some i]) @ map Some [Suc i..<num]
        = take i ptrs @ map Some [i..<num]"
      using True "1.prems" by (simp add: take_Suc_conv_app_nth upt_conv_Cons)
    have slice: "take (Suc i) (interfaceSlice[i := Some i]) @ map Some [Suc i..<num]
        = take i interfaceSlice @ map Some [i..<num]"
      using True "1.prems" by (simp add: take_Suc_conv_app_nth upt_conv_Cons)
    show ?thesis
      by (simp only: step ih keys ptrs slice)
  qed
qed

lemma GetMany_loop_all:
  "GetMany_loop lib db table idList (length idList) 0
     (replicate (length idList) None, replicate (length idList) None,
      replicate (length idList) None) =
     (map (key_or_nil lib db table) idList, map Some [0..<length idList],
      map Some [0..<length idList])"
  by (simp add: GetMany_loop_from)


lemma GetMany_registered:
  assumes "types db table = Some t" and "idList \<noteq> []"
  shows "GetMany lib db table idList =
     (case Client_BatchGetObjects lib (Client db) (map (key_or_nil lib db table) idList)
             (map Some [0..<length idList]) (replicate (length idList) (zero_Object t)) of
        (((found, objs'), err), client) \<Rightarrow>
          (case err of
             Some e \<Rightarrow> ((None, Some e), db\<lparr>Client := client\<rparr>)
           | None \<Rightarrow>
               ((Some \<lparr>elem_type = PtrType t, pointers = map Some [0..<length idList],
                       objects = objs'\<rparr>, None),
                db\<lparr>Client := client\<rparr>)))"
  using assms
  by (simp add: GetMany_def GetMany_loop_all Let_def split: prod.split option.split)

lemma GetMany_empty:
  assumes "types db table = Some t"
  shows "GetMany lib db table [] =
     ((Some \<lparr>elem_type = PtrType t, pointers = [], objects = []\<rparr>, None), db)"
  using assms by (simp add: GetMany_def)

lemma GetMany_success_pointers:
  assumes "types db table = Some t" and "fst (fst (GetMany lib db table idList)) = Some ps"
  shows "snd (fst (GetMany lib db table idList)) = None
    \<and> pointers ps = map Some [0..<length idList]"
proof (cases "idList = []")
  case True
  with assms show ?thesis
    by (auto simp add: GetMany_empty)
next
  case False
  with assms show ?thesis
    by (auto simp add: GetMany_registered split: prod.splits option.splits)
qed

lemma GetMany_failure_no_result:
  assumes "snd (fst (GetMany lib db table idList)) = Some e"
  shows "fst (fst (GetMany lib db table idList)) = None"
  using assms
  by (auto simp add: GetMany_def Let_def split: prod.splits option.splits if_splits)

lemma GetMany_batch_call:
  assumes "types db table = Some t" and "idList \<noteq> []"
  shows "calls (Client (snd (GetMany lib db table idList))) =
      calls (Client db) @ [CallBatchGetObjects (map (key_or_nil lib db table) idList)]
    \<and> snd (fst (GetMany lib db table idList)) =
      snd (fst (as_BatchGetObjects lib (Client db) (map (key_or_nil lib db table) idList)
        (map Some [0..<length idList]) (replicate (length idList) (zero_Object t))))"
  using assms
  by (auto simp add: GetMany_registered Client_BatchGetObjects_def traced_def
      split: prod.splits option.splits)

lemma mem_batch_aligned:
  assumes "mem_batch recs keys (map Some [j..<j + length keys]) objs = ((found, objs'), None)"
    and "j + length keys \<le> length objs"
  shows "length objs' = length objs
    \<and> (\<forall>i<length keys. \<exists>k. keys ! i = Some k
          \<and> objs' ! (j + i) = decode_into recs k (objs ! (j + i)))
    \<and> (\<forall>a<j. objs' ! a = objs ! a)"
  using assms
proof (induction keys arbitrary: j objs found objs')
  case Nil
  then show ?case by simp
next
  case (Cons key keys)
  have range: "[j..<j + length (key # keys)] = j # [Suc j..<Suc j + length keys]"
    using upt_conv_Cons [of j "j + length (key # keys)"] by (simp del: upt_Suc)
  from Cons.prems(1) have start: "mem_batch recs (key # keys)
      (Some j # map Some [Suc j..<Suc j + length keys]) objs = ((found, objs'), None)"
    by (simp only: range list.map)
  from start obtain k where key: "key = Some k"
    by (cases key) (auto simp del: upt_Suc)
  from Cons.prems have inside: "j < length objs"
    by simp
  show ?case
  proof (cases "recs k")
    case None
    with start key inside obtain found1 where
      rest: "mem_batch recs keys (map Some [Suc j..<Suc j + length keys]) objs
          = ((found1, objs'), None)"
      by (auto simp del: upt_Suc split: prod.splits)
    from Cons.prems have "Suc j + length keys \<le> length objs"
      by simp
    from Cons.IH [OF rest this]
    have len: "length objs' = length objs"
      and later: "\<forall>i<length keys. \<exists>k. keys ! i = Some k
          \<and> objs' ! (Suc j + i) = decode_into recs k (objs ! (Suc j + i))"
      and earlier: "\<forall>a<Suc j. objs' ! a = objs ! a"
      by blast+
    have "\<exists>k. (key # keys) ! i = Some k
          \<and> objs' ! (j + i) = decode_into recs k (objs ! (j + i))"
      if "i < length (key # keys)" for i
    proof (cases i)
      case 0
      with key None earlier show ?thesis by (simp add: decode_into_def)
    next
      case (Suc n)
      with that later show ?thesis
        by simp
    qed
    with len earlier show ?thesis
      by simp
  next
    case (Some bins)
    obtain obj derr where dec: "Decode bins (objs ! j) = (obj, derr)"
      by (cases "Decode bins (objs ! j)")
    with start key inside Some have ok: "derr = None"
      by (cases derr) (auto simp del: upt_Suc)
    with start key inside Some dec obtain found1 where
      rest: "mem_batch recs keys (map Some [Suc j..<Suc j + length keys]) (objs[j := obj])
          = ((found1, objs'), None)"
      by (auto simp del: upt_Suc split: prod.splits)
    from Cons.prems have "Suc j + length keys \<le> length (objs[j := obj])"
      by simp
    from Cons.IH [OF rest this]
    have len: "length objs' = length objs"
      and later: "\<forall>i<length keys. \<exists>k. keys ! i = Some k
          \<and> objs' ! (Suc j + i) = decode_into recs k ((objs[j := obj]) ! (Suc j + i))"
      and earlier: "\<forall>a<Suc j. objs' ! a = (objs[j := obj]) ! a"
      by simp_all
    have "\<exists>k. (key # keys) ! i = Some k
          \<and> objs' ! (j + i) = decode_into recs k (objs ! (j + i))"
      if "i < length (key # keys)" for i
    proof (cases i)
      case 0
      with key Some earlier inside dec show ?thesis by (simp add: decode_into_def)
    next
      case (Suc n)
      with that later show ?thesis
        by simp
    qed
    moreover from earlier have "\<forall>a<j. objs' ! a = objs ! a"
      by simp
    ultimately show ?thesis
      using len by simp
  qed
qed


lemma mem_key_or_nil:
  "key_or_nil (mem_Library net) db table id' =
     (if id' = [] then None else Some (Key (namespace db) table id'))"
  by (simp add: key_or_nil_def mem_Library_def mem_NewKey_def)

lemma mem_GetMany_decoded:
  assumes registered: "types db table = Some t"
    and success: "fst (fst (GetMany (mem_Library net) db table idList)) = Some ps"
  shows "length (objects ps) = length idList
    \<and> (\<forall>i<length idList. pointers ps ! i = Some i
          \<and> objects ps ! i = decoded_record db t table (idList ! i))"
proof (cases "idList = []")
  case True
  with assms show ?thesis
    by (auto simp add: GetMany_empty)
next
  case False
  let ?keys = "map (key_or_nil (mem_Library net) db table) idList"
  let ?recs = "records (server (Client db))"
  let ?zeros = "replicate (length idList) (zero_Object t)"
  obtain found objs' err where batch:
    "mem_BatchGetObjects (Client db) ?keys (map Some [0..<length idList]) ?zeros
       = (((found, objs'), err), Client db)"
    by (cases "online (server (Client db))";
        cases "mem_batch ?recs ?keys (map Some [0..<length idList]) ?zeros")
      (auto simp add: mem_BatchGetObjects_def)
  with registered False success have ok: "err = None"
    and ps: "ps = \<lparr>elem_type = PtrType t, pointers = map Some [0..<length idList],
                   objects = objs'\<rparr>"
    by (auto simp add: GetMany_registered Client_BatchGetObjects_def traced_def mem_Library_def
        split: option.splits)
  from batch ok have "mem_batch ?recs ?keys (map Some [0..<0 + length ?keys]) ?zeros
      = ((found, objs'), None)"
    by (auto simp add: mem_BatchGetObjects_def split: if_splits)
  from mem_batch_aligned [OF this]
  have len: "length objs' = length idList"
    and each: "\<forall>i<length idList. \<exists>k. ?keys ! i = Some k
        \<and> objs' ! i = decode_into ?recs k (?zeros ! i)"
    by simp_all
  have "pointers ps ! i = Some i \<and> objects ps ! i = decoded_record db t table (idList ! i)"
    if "i < length idList" for i
  proof -
    from each that obtain k where k: "?keys ! i = Some k"
      and obj: "objs' ! i = decode_into ?recs k (?zeros ! i)"
      by blast
    from k that have "k = Key (namespace db) table (idList ! i)"
      by (simp add: mem_key_or_nil split: if_splits)
    with obj that ps show ?thesis
      by (simp add: decoded_record_def)
  qed
  with len ps show ?thesis
    by simp
qed

lemma GetMany_batch_success:
  assumes "types db table = Some t" and "idList \<noteq> []"
    and "as_BatchGetObjects lib (Client db) (map (key_or_nil lib db table) idList)
        (map Some [0..<length idList]) (replicate (length idList) (zero_Object t))
      = (((found, objs'), None), client)"
  shows "GetMany lib db table idList =
     ((Some \<lparr>elem_type = PtrType t, pointers = map Some [0..<length idList],
             objects = objs'\<rparr>, None),
      db\<lparr>Client := client\<lparr>calls := calls (Client db)
        @ [CallBatchGetObjects (map (key_or_nil lib db table) idList)]\<rparr>\<rparr>)"
  using assms by (simp add: GetMany_registered Client_BatchGetObjects_def traced_def)

lemma GetMany_batch_failure:
  assumes "types db table = Some t" and "idList \<noteq> []"
    and "as_BatchGetObjects lib (Client db) (map (key_or_nil lib db table) idList)
        (map Some [0..<length idList]) (replicate (length idList) (zero_Object t))
      = (((found, objs'), Some e), client)"
  shows "GetMany lib db table idList =
     ((None, Some e),
      db\<lparr>Client := client\<lparr>calls := calls (Client db)
        @ [CallBatchGetObjects (map (key_or_nil lib db table) idList)]\<rparr>\<rparr>)"
  using assms by (simp add: GetMany_registered Client_BatchGetObjects_def traced_def)

lemma mem_batch_total:
  assumes "j + length ks \<le> length objs"
    and "\<forall>i<length ks. decodes recs (ks ! i) (objs ! (j + i))"
  shows "\<exists>found objs'.
    mem_batch recs (map Some ks) (map Some [j..<j + length ks]) objs = ((found, objs'), None)"
  using assms
proof (induction ks arbitrary: j objs)
  case Nil
  then show ?case by simp
next
  case (Cons k ks)
  have range: "[j..<j + length (k # ks)] = j # [Suc j..<Suc j + length ks]"
    using upt_conv_Cons [of j "j + length (k # ks)"] by (simp del: upt_Suc)
  from Cons.prems(1) have inside: "j < length objs"
    by simp
  from Cons.prems(2) [rule_format, of 0] have head: "decodes recs k (objs ! j)"
    by simp
  show ?case
  proof (cases "recs k")
    case None
    have "\<forall>i<length ks. decodes recs (ks ! i) (objs ! (Suc j + i))"
    proof (intro allI impI)
      fix i
      assume "i < length ks"
      with Cons.prems(2) [rule_format, of "Suc i"]
      show "decodes recs (ks ! i) (objs ! (Suc j + i))"
        by simp
    qed
    with Cons.prems(1) have "\<exists>found objs'.
        mem_batch recs (map Some ks) (map Some [Suc j..<Suc j + length ks]) objs
          = ((found, objs'), None)"
      by (intro Cons.IH) simp_all
    then obtain found objs' where
      rest: "mem_batch recs (map Some ks) (map Some [Suc j..<Suc j + length ks]) objs
          = ((found, objs'), None)"
      by blast
    have "mem_batch recs (map Some (k # ks)) (map Some [j..<j + length (k # ks)]) objs
        = ((False # found, objs'), None)"
      unfolding range using None inside rest by (simp del: upt_Suc)
    then show ?thesis
      by blast
  next
    case (Some bins)
    with head have "snd (Decode bins (objs ! j)) = None"
      by (simp add: decodes_def)
    then obtain obj where dec: "Decode bins (objs ! j) = (obj, None)"
      by (cases "Decode bins (objs ! j)") simp
    have "\<forall>i<length ks. decodes recs (ks ! i) ((objs[j := obj]) ! (Suc j + i))"
    proof (intro allI impI)
      fix i
      assume "i < length ks"
      with Cons.prems(2) [rule_format, of "Suc i"]
      show "decodes recs (ks ! i) ((objs[j := obj]) ! (Suc j + i))"
        by simp
    qed
    with Cons.prems(1) have "\<exists>found objs'.
        mem_batch recs (map Some ks) (map Some [Suc j..<Suc j + length ks]) (objs[j := obj])
          = ((found, objs'), None)"
      by (intro Cons.IH) simp_all
    then obtain found objs' where
      rest: "mem_batch recs (map Some ks) (map Some [Suc j..<Suc j + length ks]) (objs[j := obj])
          = ((found, objs'), None)"
      by blast
    have "mem_batch recs (map Some (k # ks)) (map Some [j..<j + length (k # ks)]) objs
        = ((True # found, objs'), None)"
      unfolding range using Some inside dec rest by (simp del: upt_Suc)
    then show ?thesis
      by blast
  qed
qed

lemma mem_GetMany_success:
  assumes registered: "types db table = Some t" and up: "online (server (Client db))"
    and ok: "list_all (\<lambda>id'. id' \<noteq> []
        \<and> decodes (records (server (Client db))) (Key (namespace db) table id') (zero_Object t))
      idList"
  shows "fst (GetMany (mem_Library net) db table idList) =
     (Some \<lparr>elem_type = PtrType t, pointers = map Some [0..<length idList],
            objects = map (decoded_record db t table) idList\<rparr>, None)"
proof (cases "idList = []")
  case True
  with registered show ?thesis
    by (simp add: GetMany_empty)
next
  case False
  let ?ks = "map (Key (namespace db) table) idList"
  let ?recs = "records (server (Client db))"
  let ?zeros = "replicate (length idList) (zero_Object t)"
  from ok have keys: "map (key_or_nil (mem_Library net) db table) idList = map Some ?ks"
    by (simp add: mem_key_or_nil list_all_iff)
  from ok have "\<forall>i<length ?ks. decodes ?recs (?ks ! i) (?zeros ! (0 + i))"
    by (simp add: list_all_length)
  moreover have "0 + length ?ks \<le> length ?zeros"
    by simp
  ultimately have "\<exists>found objs'.
      mem_batch ?recs (map Some ?ks) (map Some [0..<0 + length ?ks]) ?zeros
        = ((found, objs'), None)"
    by (intro mem_batch_total)
  then obtain found objs' where
    batch: "mem_batch ?recs (map Some ?ks) (map Some [0..<length idList]) ?zeros
        = ((found, objs'), None)"
    by auto
  with up have call: "Client_BatchGetObjects (mem_Library net) (Client db) (map Some ?ks)
        (map Some [0..<length idList]) ?zeros
      = (((found, objs'), None),
         (Client db)\<lparr>calls := calls (Client db) @ [CallBatchGetObjects (map Some ?ks)]\<rparr>)"
    by (simp add: Client_BatchGetObjects_def traced_def mem_Library_def mem_BatchGetObjects_def)
  have result: "fst (GetMany (mem_Library net) db table idList) =
      (Some \<lparr>elem_type = PtrType t, pointers = map Some [0..<length idList],
             objects = objs'\<rparr>, None)"
    unfolding GetMany_registered [OF registered False] keys call by simp
  then have "fst (fst (GetMany (mem_Library net) db table idList)) =
      Some \<lparr>elem_type = PtrType t, pointers = map Some [0..<length idList], objects = objs'\<rparr>"
    by simp
  from mem_GetMany_decoded [OF registered this]
  have len: "length objs' = length idList"
    and each: "\<forall>i<length idList. objs' ! i = decoded_record db t table (idList ! i)"
    by simp_all
  have "objs' = map (decoded_record db t table) idList"
    by (rule nth_equalityI) (simp_all add: len each)
  with result show ?thesis
    by simp
qed

lemma mem_GetMany_offline:
  assumes registered: "types db table = Some t" and down: "\<not> online (server (Client db))"
    and nonempty: "idList \<noteq> []"
  shows "fst (GetMany (mem_Library net) db table idList) = (None, Some StoreError)"
proof -
  have call: "Client_BatchGetObjects (mem_Library net) (Client db) keys ptrs objs
      = ((([], objs), Some StoreError),
         (Client db)\<lparr>calls := calls (Client db) @ [CallBatchGetObjects keys]\<rparr>)"
    for keys ptrs objs
    using down
    by (simp add: Client_BatchGetObjects_def traced_def mem_Library_def mem_BatchGetObjects_def)
  show ?thesis
    by (simp add: GetMany_registered [OF registered nonempty] call)
qed

text \<open>
  Claim C5. Let \<open>table\<close> be registered with type \<open>t\<close>. For the empty id list \<^verbatim>\<open>GetMany\<close>
  returns an empty slice and the database as it was, so no call was made. For a list of
  \<open>N > 0\<close> ids it makes one batch call, with the key of the \<open>i\<close>-th id at position \<open>i\<close>
  and the pointer to element \<open>i\<close> of the backing array as its target, and its result is
  decided by that call: when the batch read returns no error, \<^verbatim>\<open>GetMany\<close> returns, with
  no error, exactly \<open>N\<close> pointers, the \<open>i\<close>-th addressing element \<open>i\<close> of the array as the
  library filled it; when the batch read returns an error, \<^verbatim>\<open>GetMany\<close> returns that
  error and a nil result. With the reference library behind the facade: when the store
  is online, every id is accepted by the key builder and every record found decodes,
  \<^verbatim>\<open>GetMany\<close> succeeds and the \<open>i\<close>-th object is the record of the \<open>i\<close>-th id decoded into
  the table's type (the zero value when the store has no record under that id); when the
  store is offline, \<^verbatim>\<open>GetMany\<close> returns the store error and a nil result.
\<close>

theorem GetMany_order_and_length:
  assumes "types db table = Some t" and "types mdb table = Some t"
  shows "GetMany lib db table [] =
        ((Some \<lparr>elem_type = PtrType t, pointers = [], objects = []\<rparr>, None), db)
    \<and> (idList \<noteq> [] \<longrightarrow>
          calls (Client (snd (GetMany lib db table idList))) =
            calls (Client db) @ [CallBatchGetObjects (map (key_or_nil lib db table) idList)])
    \<and> (\<forall>ps. fst (fst (GetMany lib db table idList)) = Some ps \<longrightarrow>
          snd (fst (GetMany lib db table idList)) = None
          \<and> length (pointers ps) = length idList
          \<and> (\<forall>i<length idList. pointers ps ! i = Some i))
    \<and> (\<forall>e. snd (fst (GetMany lib db table idList)) = Some e \<longrightarrow>
          fst (fst (GetMany lib db table idList)) = None)
    \<and> (\<forall>ps. fst (fst (GetMany (mem_Library net) mdb table idList)) = Some ps \<longrightarrow>
          length (objects ps) = length idList
          \<and> (\<forall>i<length idList. pointers ps ! i = Some i
                \<and> objects ps ! i = decoded_record mdb t table (idList ! i)))
    \<and> (\<forall>found objs' client. idList \<noteq> []
          \<and> as_BatchGetObjects lib (Client db) (map (key_or_nil lib db table) idList)
                (map Some [0..<length idList]) (replicate (length idList) (zero_Object t))
              = (((found, objs'), None), client) \<longrightarrow>
          GetMany lib db table idList =
            ((Some \<lparr>elem_type = PtrType t, pointers = map Some [0..<length idList],
                    objects = objs'\<rparr>, None),
             db\<lparr>Client := client\<lparr>calls := calls (Client db)
               @ [CallBatchGetObjects (map (key_or_nil lib db table) idList)]\<rparr>\<rparr>))
    \<and> (\<forall>found objs' e client. idList \<noteq> []
          \<and> as_BatchGetObjects lib (Client db) (map (key_or_nil lib db table) idList)
                (map Some [0..<length idList]) (replicate (length idList) (zero_Object t))
              = (((found, objs'), Some e), client) \<longrightarrow>
          GetMany lib db table idList =
            ((None, Some e),
             db\<lparr>Client := client\<lparr>calls := calls (Client db)
               @ [CallBatchGetObjects (map (key_or_nil lib db table) idList)]\<rparr>\<rparr>))
    \<and> (online (server (Client mdb))
          \<and> list_all (\<lambda>id'. id' \<noteq> []
                \<and> decodes (records (server (Client mdb))) (Key (namespace mdb) table id')
                    (zero_Object t)) idList \<longrightarrow>
          fst (GetMany (mem_Library net) mdb table idList) =
            (Some \<lparr>elem_type = PtrType t, pointers = map Some [0..<length idList],
                   objects = map (decoded_record mdb t table) idList\<rparr>, None))
    \<and> (\<not> online (server (Client mdb)) \<and> idList \<noteq> [] \<longrightarrow>
          fst (GetMany (mem_Library net) mdb table idList) = (None, Some StoreError))"
proof -
  have empty: "GetMany lib db table [] =
      ((Some \<lparr>elem_type = PtrType t, pointers = [], objects = []\<rparr>, None), db)"
    using assms(1) by (rule GetMany_empty)
  have call: "idList \<noteq> [] \<longrightarrow>
      calls (Client (snd (GetMany lib db table idList))) =
        calls (Client db) @ [CallBatchGetObjects (map (key_or_nil lib db table) idList)]"
    using GetMany_batch_call [OF assms(1)] by blast
  have result: "\<forall>ps. fst (fst (GetMany lib db table idList)) = Some ps \<longrightarrow>
      snd (fst (GetMany lib db table idList)) = None
      \<and> length (pointers ps) = length idList
      \<and> (\<forall>i<length idList. pointers ps ! i = Some i)"
  proof (intro allI impI)
    fix ps
    assume "fst (fst (GetMany lib db table idList)) = Some ps"
    from GetMany_success_pointers [OF assms(1) this]
    show "snd (fst (GetMany lib db table idList)) = None
      \<and> length (pointers ps) = length idList
      \<and> (\<forall>i<length idList. pointers ps ! i = Some i)"
      by simp
  qed
  have failure: "\<forall>e. snd (fst (GetMany lib db table idList)) = Some e \<longrightarrow>
      fst (fst (GetMany lib db table idList)) = None"
    using GetMany_failure_no_result by blast
  have decoded: "\<forall>ps. fst (fst (GetMany (mem_Library net) mdb table idList)) = Some ps \<longrightarrow>
      length (objects ps) = length idList
      \<and> (\<forall>i<length idList. pointers ps ! i = Some i
            \<and> objects ps ! i = decoded_record mdb t table (idList ! i))"
    using mem_GetMany_decoded [OF assms(2)] by blast
  have batch_ok: "\<forall>found objs' client. idList \<noteq> []
        \<and> as_BatchGetObjects lib (Client db) (map (key_or_nil lib db table) idList)
              (map Some [0..<length idList]) (replicate (length idList) (zero_Object t))
            = (((found, objs'), None), client) \<longrightarrow>
      GetMany lib db table idList =
        ((Some \<lparr>elem_type = PtrType t, pointers = map Some [0..<length idList],
                objects = objs'\<rparr>, None),
         db\<lparr>Client := client\<lparr>calls := calls (Client db)
           @ [CallBatchGetObjects (map (key_or_nil lib db table) idList)]\<rparr>\<rparr>)"
    using GetMany_batch_success [OF assms(1)] by blast
  have batch_failed: "\<forall>found objs' e client. idList \<noteq> []
        \<and> as_BatchGetObjects lib (Client db) (map (key_or_nil lib db table) idList)
              (map Some [0..<length idList]) (replicate (length idList) (zero_Object t))
            = (((found, objs'), Some e), client) \<longrightarrow>
      GetMany lib db table idList =
        ((None, Some e),
         db\<lparr>Client := client\<lparr>calls := calls (Client db)
           @ [CallBatchGetObjects (map (key_or_nil lib db table) idList)]\<rparr>\<rparr>)"
    using GetMany_batch_failure [OF assms(1)] by blast
  have stored: "online (server (Client mdb))
        \<and> list_all (\<lambda>id'. id' \<noteq> []
              \<and> decodes (records (server (Client mdb))) (Key (namespace mdb) table id')
                  (zero_Object t)) idList \<longrightarrow>
      fst (GetMany (mem_Library net) mdb table idList) =
        (Some \<lparr>elem_type = PtrType t, pointers = map Some [0..<length idList],
               objects = map (decoded_record mdb t table) idList\<rparr>, None)"
    using mem_GetMany_success [OF assms(2)] by blast
  have offline: "\<not> online (server (Client mdb)) \<and> idList \<noteq> [] \<longrightarrow>
      fst (GetMany (mem_Library net) mdb table idList) = (None, Some StoreError)"
    using mem_GetMany_offline [OF assms(2)] by blast
  from empty call result failure decoded batch_ok batch_failed stored offline show ?thesis
    by (intro conjI)
qed

lemma stocked_User: "types stocked_db ''User'' = Some User"
  by (simp add: stocked_db_def example_db_def example_types_def)

lemma unplugged_User: "types unplugged_db ''User'' = Some User"
  by (simp add: unplugged_db_def example_db_def example_types_def)

theorem GetMany_order_and_length_witness:
  "types stocked_db ''User'' = Some User \<and> types unplugged_db ''User'' = Some User
   \<and> online (server (Client stocked_db)) \<and> \<not> online (server (Client unplugged_db))
   \<and> GetMany example_lib stocked_db ''User'' [] =
       ((Some \<lparr>elem_type = PtrType User, pointers = [], objects = []\<rparr>, None), stocked_db)
   \<and> fst (GetMany example_lib stocked_db ''User'' [''1'', ''2'']) =
       (Some \<lparr>elem_type = PtrType User, pointers = [Some 0, Some 1],
              objects = [\<lparr>obj_type = User,
                           obj_values = [StringValue ''Ann'', IntegerValue 30, StringValue []]\<rparr>,
                         zero_Object User]\<rparr>, None)
   \<and> calls (Client (snd (GetMany example_lib stocked_db ''User'' [''1'', ''2'']))) =
       [CallBatchGetObjects [Some (Key ''test'' ''User'' ''1''),
                             Some (Key ''test'' ''User'' ''2'')]]
   \<and> fst (GetMany example_lib unplugged_db ''User'' [''1'', ''2'']) = (None, Some StoreError)"
proof -
  note stocked = GetMany_order_and_length [OF stocked_User stocked_User,
      where lib = example_lib and idList = "[''1'', ''2'']" and net = example_net]
  note unplugged = GetMany_order_and_length [OF unplugged_User unplugged_User,
      where lib = example_lib and idList = "[''1'', ''2'']" and net = example_net]
  note empty = stocked [THEN conjunct1]
  have ids: "[''1'', ''2''] \<noteq> ([] :: string list)"
    by simp
  have keys: "map (key_or_nil example_lib stocked_db ''User'') [''1'', ''2'']
      = [Some (Key ''test'' ''User'' ''1''), Some (Key ''test'' ''User'' ''2'')]"
    by (simp add: key_or_nil_def mem_NewKey_def stocked_db_def example_defs)
  from stocked [THEN conjunct2, THEN conjunct1, THEN mp, OF ids] keys
  have call: "calls (Client (snd (GetMany example_lib stocked_db ''User'' [''1'', ''2'']))) =
      [CallBatchGetObjects [Some (Key ''test'' ''User'' ''1''),
                            Some (Key ''test'' ''User'' ''2'')]]"
    by (simp add: stocked_db_def example_client_def)
  have up: "online (server (Client stocked_db))"
    by (simp add: stocked_db_def)
  have down: "\<not> online (server (Client unplugged_db))"
    by (simp add: unplugged_db_def)
  have first: "decoded_record stocked_db User ''User'' ''1'' =
      \<lparr>obj_type = User, obj_values = [StringValue ''Ann'', IntegerValue 30, StringValue []]\<rparr>"
    by (simp add: decoded_record_def decode_into_def Decode_def zero_Object_def ann_bins_def
        stocked_db_def example_defs)
  have second: "decoded_record stocked_db User ''User'' ''2'' = zero_Object User"
    by (simp add: decoded_record_def decode_into_def stocked_db_def example_defs)
  have "online (server (Client stocked_db))
      \<and> list_all (\<lambda>id'. id' \<noteq> []
            \<and> decodes (records (server (Client stocked_db)))
                (Key (namespace stocked_db) ''User'' id') (zero_Object User)) [''1'', ''2'']"
    by (simp add: decodes_def Decode_def zero_Object_def ann_bins_def stocked_db_def
        example_defs)
  from stocked [THEN conjunct2, THEN conjunct2, THEN conjunct2, THEN conjunct2,
      THEN conjunct2, THEN conjunct2, THEN conjunct2, THEN conjunct1, THEN mp, OF this]
  have read: "fst (GetMany example_lib stocked_db ''User'' [''1'', ''2'']) =
      (Some \<lparr>elem_type = PtrType User, pointers = [Some 0, Some 1],
             objects = [\<lparr>obj_type = User,
                          obj_values = [StringValue ''Ann'', IntegerValue 30, StringValue []]\<rparr>,
                        zero_Object User]\<rparr>, None)"
    by (simp add: first second example_lib_def)
  from down ids have "\<not> online (server (Client unplugged_db))
      \<and> [''1'', ''2''] \<noteq> ([] :: string list)"
    by simp
  from unplugged [THEN conjunct2, THEN conjunct2, THEN conjunct2, THEN conjunct2,
      THEN conjunct2, THEN conjunct2, THEN conjunct2, THEN conjunct2, THEN mp, OF this]
  have failed: "fst (GetMany example_lib unplugged_db ''User'' [''1'', ''2''])
      = (None, Some StoreError)"
    by (simp add: example_lib_def)
  from stocked_User unplugged_User up down empty read call failed show ?thesis
    by (intro conjI)
qed

section \<open>Key construction errors\<close>









lemma example_User: "types example_db ''User'' = Some User"
  by (simp add: example_db_def example_types_def)



section \<open>What \<^verbatim>\<open>Get\<close> returns beside an error\<close>












section \<open>\<^verbatim>\<open>All\<close> and \<^verbatim>\<open>reflect.MakeChan\<close>\<close>

lemma MakeChan_struct:
  assumes "is_struct t"
  shows "reflect_MakeChan (Some t) buffer = Panics (RuntimeError ''reflect.MakeChan of non-chan type'')"
  using assms by (cases t) simp_all

lemma MakeChan_not_chan:
  assumes "\<not> is_chan t"
  shows "reflect_MakeChan (Some t) buffer = Panics (RuntimeError ''reflect.MakeChan of non-chan type'')"
  using assms by (cases t) simp_all

lemma Elem_struct_pointer:
  assumes "struct_pointer example"
  shows "\<exists>t. reflect_Elem example = Returns t \<and> is_struct t"
  using assms by (cases example rule: struct_pointer.cases) simp_all

lemma tableTypes_loop_structs:
  assumes "list_all struct_pointer tables" and "\<forall>name t. m name = Some t \<longrightarrow> is_struct t"
  shows "\<exists>m'. tableTypes_loop tables m = Returns m'
    \<and> (\<forall>name t. m' name = Some t \<longrightarrow> is_struct t)"
  using assms
proof (induction tables arbitrary: m)
  case Nil
  then show ?case by simp
next
  case (Cons example tables)
  from Cons.prems(1) obtain typeInfo where
    elem: "reflect_Elem example = Returns typeInfo" and struct: "is_struct typeInfo"
    using Elem_struct_pointer by auto
  let ?m = "m(type_Name typeInfo \<mapsto> typeInfo)"
  from Cons.prems(2) struct have "\<forall>name t. ?m name = Some t \<longrightarrow> is_struct t"
    by simp
  with Cons.prems(1) have "\<exists>m'. tableTypes_loop tables ?m = Returns m'
      \<and> (\<forall>name t. m' name = Some t \<longrightarrow> is_struct t)"
    by (intro Cons.IH) simp_all
  with elem show ?case
    by simp
qed

lemma NewDatabase_structs:
  assumes "NewDatabase lib host port ns tables = Returns db"
    and "list_all struct_pointer tables"
  shows "\<forall>name t. types db name = Some t \<longrightarrow> is_struct t"
proof -
  from tableTypes_loop_structs [OF assms(2), of Map.empty] obtain m' where
    loop: "tableTypes_loop tables Map.empty = Returns m'"
    and structs: "\<forall>name t. m' name = Some t \<longrightarrow> is_struct t"
    by auto
  from assms(1) loop have "types db = m'"
    by (auto simp add: NewDatabase_def Let_def split: sum.splits)
  with structs show ?thesis
    by simp
qed

text \<open>
  Claim C6, on the code. Let the database come from \<^verbatim>\<open>NewDatabase\<close> with examples that
  are pointers to structs, as the README registers them. Then \<^verbatim>\<open>All\<close> returns no stream
  for any table: on a registered table it panics in \<^verbatim>\<open>reflect.MakeChan\<close>, which is given
  the struct type where it needs a channel type, and on any other table it panics on the
  nil type. No scan is started.
\<close>

theorem All_panics_on_registered_struct:
  assumes "NewDatabase lib host port ns tables = Returns db"
    and "list_all struct_pointer tables"
  shows "(types db table \<noteq> None \<longrightarrow>
          All_db lib db table = Panics (RuntimeError ''reflect.MakeChan of non-chan type''))
    \<and> (\<exists>msg. All_db lib db table = Panics (RuntimeError msg))"
proof (cases "types db table")
  case None
  then show ?thesis
    by (simp add: All_db_def)
next
  case (Some t)
  with NewDatabase_structs [OF assms] have "is_struct t"
    by simp
  with Some show ?thesis
    by (simp add: All_db_def MakeChan_struct)
qed

lemma NewDatabase_README:
  "NewDatabase example_lib ''127.0.0.1'' 3000 ''test'' [Some (PtrType User), Some (PtrType Guest)]
     = Returns (example_db\<lparr>types := [''User'' \<mapsto> User, ''Guest'' \<mapsto> Guest]\<rparr>)"
  by (simp add: NewDatabase_def mem_NewClientWithPolicy_def NewClientPolicy_def example_defs)

theorem All_panics_on_registered_struct_witness:
  "NewDatabase example_lib ''127.0.0.1'' 3000 ''test'' [Some (PtrType User), Some (PtrType Guest)]
     = Returns (example_db\<lparr>types := [''User'' \<mapsto> User, ''Guest'' \<mapsto> Guest]\<rparr>)
   \<and> list_all struct_pointer [Some (PtrType User), Some (PtrType Guest)]
   \<and> types (example_db\<lparr>types := [''User'' \<mapsto> User, ''Guest'' \<mapsto> Guest]\<rparr>) ''User'' = Some User
   \<and> All_db example_lib (example_db\<lparr>types := [''User'' \<mapsto> User, ''Guest'' \<mapsto> Guest]\<rparr>) ''User''
       = Panics (RuntimeError ''reflect.MakeChan of non-chan type'')"
proof -
  have pointers: "list_all struct_pointer [Some (PtrType User), Some (PtrType Guest)]"
    by (simp add: User_def Guest_def)
  have registered:
    "types (example_db\<lparr>types := [''User'' \<mapsto> User, ''Guest'' \<mapsto> Guest]\<rparr>) ''User'' \<noteq> None"
    by simp
  note All_panics_on_registered_struct [OF NewDatabase_README pointers, of "''User''",
      THEN conjunct1, THEN mp, OF registered]
  with NewDatabase_README pointers show ?thesis
    by simp
qed

section \<open>Panics\<close>

lemma NewDatabase_connection_failure:
  assumes "tableTypes_loop tables Map.empty = Returns tableTypes"
    and "as_NewClientWithPolicy lib (NewClientPolicy\<lparr>ConnectionQueueSize := 1024\<rparr>) host port
      = Inl err"
  shows "NewDatabase lib host port ns tables = Panics (PanicError err)"
  using assms by (simp add: NewDatabase_def)

lemma NewDatabase_bad_example:
  assumes "tableTypes_loop tables Map.empty = Panics p"
  shows "NewDatabase lib host port ns tables = Panics p"
  using assms by (simp add: NewDatabase_def)

text \<open>
  Claim C8, on the code. \<^verbatim>\<open>NewDatabase\<close> panics with the library's error when the
  connection fails. It is not the only panic: on a connected database, \<^verbatim>\<open>All\<close> panics
  with a runtime error for every table whose registered type is not a channel type, and
  for every table that is not registered; and \<^verbatim>\<open>NewDatabase\<close> panics in its loop, before
  it connects, on an example that is nil or not a pointer.
\<close>

theorem All_panics_without_connection_failure:
  assumes "\<forall>t. types db table = Some t \<longrightarrow> \<not> is_chan t"
  shows "(\<exists>msg. All_db lib db table = Panics (RuntimeError msg))
    \<and> (\<forall>tableTypes err. tableTypes_loop tables Map.empty = Returns tableTypes
          \<and> as_NewClientWithPolicy lib (NewClientPolicy\<lparr>ConnectionQueueSize := 1024\<rparr>) host port
              = Inl err
          \<longrightarrow> NewDatabase lib host port ns tables = Panics (PanicError err))
    \<and> (\<forall>p. tableTypes_loop tables Map.empty = Panics p
          \<longrightarrow> NewDatabase lib host port ns tables = Panics p)"
proof -
  have stream: "\<exists>msg. All_db lib db table = Panics (RuntimeError msg)"
  proof (cases "types db table")
    case None
    then show ?thesis
      by (simp add: All_db_def)
  next
    case (Some t)
    with assms have "\<not> is_chan t"
      by simp
    with Some show ?thesis
      by (simp add: All_db_def MakeChan_not_chan)
  qed
  moreover have "\<forall>tableTypes err. tableTypes_loop tables Map.empty = Returns tableTypes
        \<and> as_NewClientWithPolicy lib (NewClientPolicy\<lparr>ConnectionQueueSize := 1024\<rparr>) host port
            = Inl err
      \<longrightarrow> NewDatabase lib host port ns tables = Panics (PanicError err)"
    using NewDatabase_connection_failure by blast
  moreover have "\<forall>p. tableTypes_loop tables Map.empty = Panics p
      \<longrightarrow> NewDatabase lib host port ns tables = Panics p"
    using NewDatabase_bad_example by blast
  ultimately show ?thesis
    by (intro conjI)
qed

theorem All_panics_without_connection_failure_witness:
  "types example_db ''User'' = Some User \<and> \<not> is_chan User
   \<and> All_db example_lib example_db ''User''
       = Panics (RuntimeError ''reflect.MakeChan of non-chan type'')
   \<and> All_db example_lib example_db ''Post''
       = Panics (RuntimeError ''invalid memory address or nil pointer dereference'')
   \<and> NewDatabase example_lib ''127.0.0.1'' 3001 ''test'' [Some (PtrType User)]
       = Panics (PanicError StoreError)
   \<and> NewDatabase example_lib ''127.0.0.1'' 3000 ''test'' [Some User]
       = Panics (RuntimeError ''reflect: Elem of invalid type'')
   \<and> NewDatabase example_lib ''127.0.0.1'' 3000 ''test'' [None]
       = Panics (RuntimeError ''invalid memory address or nil pointer dereference'')"
proof -
  have struct: "\<forall>t. types example_db ''User'' = Some t \<longrightarrow> \<not> is_chan t"
    by (simp add: example_User User_def)
  note panics = All_panics_without_connection_failure [OF struct,
      where lib = example_lib and host = "''127.0.0.1''" and ns = "''test''"]
  have loop: "tableTypes_loop [Some (PtrType User)] Map.empty = Returns [''User'' \<mapsto> User]
      \<and> as_NewClientWithPolicy example_lib (NewClientPolicy\<lparr>ConnectionQueueSize := 1024\<rparr>)
          ''127.0.0.1'' 3001 = Inl StoreError"
    by (simp add: mem_NewClientWithPolicy_def example_defs)
  note refused = panics [where tables = "[Some (PtrType User)]" and port = 3001,
      THEN conjunct2, THEN conjunct1, rule_format, OF loop]
  have "tableTypes_loop [Some User] Map.empty = Panics (RuntimeError ''reflect: Elem of invalid type'')"
    by (simp add: User_def)
  note value_example = panics [where tables = "[Some User]" and port = 3000,
      THEN conjunct2, THEN conjunct2, rule_format, OF this]
  have "tableTypes_loop [None] Map.empty
      = Panics (RuntimeError ''invalid memory address or nil pointer dereference'')"
    by simp
  note nil_example = panics [where tables = "[None]" and port = 3000,
      THEN conjunct2, THEN conjunct2, rule_format, OF this]
  have user: "All_db example_lib example_db ''User''
      = Panics (RuntimeError ''reflect.MakeChan of non-chan type'')"
    by (simp add: All_db_def example_User User_def)
  have post: "All_db example_lib example_db ''Post''
      = Panics (RuntimeError ''invalid memory address or nil pointer dereference'')"
    by (simp add: All_db_def example_Post_unregistered)
  have "\<not> is_chan User"
    by (simp add: User_def)
  with example_User refused value_example nil_example user post show ?thesis
    by (intro conjI)
qed


section \<open>The existence flag of \<^verbatim>\<open>Delete\<close>\<close>

text \<open>
  Claim C7. With the reference library behind the facade, a store that is online and an
  id the key builder accepts: \<^verbatim>\<open>Delete\<close> never returns an error, and its flag says
  whether the store held a record under the key. So the first \<^verbatim>\<open>Delete\<close> after a \<^verbatim>\<open>Set\<close>
  returns true, a second \<^verbatim>\<open>Delete\<close> right after any \<^verbatim>\<open>Delete\<close> returns false, and a
  \<^verbatim>\<open>Delete\<close> of a key with no record returns false and no error.
\<close>

theorem Delete_existence_flag:
  assumes "id' \<noteq> []" and "online (server (Client db))"
  shows "fst (Set_db (mem_Library net) db table id' obj) = None
    \<and> fst (Delete (mem_Library net) (snd (Set_db (mem_Library net) db table id' obj)) table id')
        = (True, None)
    \<and> fst (Delete (mem_Library net)
          (snd (Delete (mem_Library net) (snd (Set_db (mem_Library net) db table id' obj))
            table id')) table id')
        = (False, None)
    \<and> fst (Delete (mem_Library net) (snd (Delete (mem_Library net) db table id')) table id')
        = (False, None)
    \<and> fst (Delete (mem_Library net) db table id')
        = (records (server (Client db)) (Key (namespace db) table id') \<noteq> None, None)"
proof -
  let ?L = "mem_Library net"
  let ?db1 = "snd (Set_db ?L db table id' obj)"
  let ?db2 = "snd (Delete ?L ?db1 table id')"
  let ?db3 = "snd (Delete ?L db table id')"
  have set: "fst (Set_db ?L db table id' obj) = None"
    by (simp add: mem_Set_db [OF assms])
  have online1: "online (server (Client ?db1))" and ns1: "namespace ?db1 = namespace db"
    and stored: "records (server (Client ?db1)) (Key (namespace db) table id') \<noteq> None"
    using assms(2) by (simp_all add: mem_Set_db [OF assms])
  have first: "fst (Delete ?L ?db1 table id') = (True, None)"
    using stored by (simp add: mem_Delete [OF assms(1) online1] ns1)
  have online2: "online (server (Client ?db2))" and ns2: "namespace ?db2 = namespace db"
    and gone: "records (server (Client ?db2)) (Key (namespace db) table id') = None"
    using online1 by (simp_all add: mem_Delete [OF assms(1) online1] ns1)
  have second: "fst (Delete ?L ?db2 table id') = (False, None)"
    using gone by (simp add: mem_Delete [OF assms(1) online2] ns2)
  have online3: "online (server (Client ?db3))" and ns3: "namespace ?db3 = namespace db"
    and gone3: "records (server (Client ?db3)) (Key (namespace db) table id') = None"
    using assms(2) by (simp_all add: mem_Delete [OF assms])
  have again: "fst (Delete ?L ?db3 table id') = (False, None)"
    using gone3 by (simp add: mem_Delete [OF assms(1) online3] ns3)
  have flag: "fst (Delete ?L db table id')
      = (records (server (Client db)) (Key (namespace db) table id') \<noteq> None, None)"
    by (simp add: mem_Delete [OF assms])
  from set first second again flag show ?thesis
    by (intro conjI)
qed

lemma example_online: "online (server (Client example_db))"
  by (simp add: example_db_def example_client_def)

theorem Delete_existence_flag_witness:
  "''123'' \<noteq> ([] :: string) \<and> online (server (Client example_db))
   \<and> fst (Set_db example_lib example_db ''User'' ''123'' ann) = None
   \<and> fst (Delete example_lib (snd (Set_db example_lib example_db ''User'' ''123'' ann))
         ''User'' ''123'') = (True, None)
   \<and> fst (Delete example_lib
         (snd (Delete example_lib (snd (Set_db example_lib example_db ''User'' ''123'' ann))
           ''User'' ''123'')) ''User'' ''123'') = (False, None)
   \<and> fst (Delete example_lib example_db ''User'' ''123'') = (False, None)"
proof -
  have id: "''123'' \<noteq> ([] :: string)"
    by simp
  note flag = Delete_existence_flag [OF id example_online, of example_net "''User''" ann,
      folded example_lib_def]
  have "records (server (Client example_db)) (Key (namespace example_db) ''User'' ''123'') = None"
    by (simp add: example_db_def example_client_def)
  with flag have "fst (Delete example_lib example_db ''User'' ''123'') = (False, None)"
    by simp
  with flag id example_online show ?thesis
    by simp
qed


section \<open>Full replace\<close>

lemma NewDatabase_REPLACE:
  assumes "NewDatabase lib host port ns tables = Returns db"
  shows "RecordExistsAction (DefaultWritePolicy (Client db)) = REPLACE"
  using assms by (auto simp add: NewDatabase_def Let_def split: outcome.splits sum.splits)

text \<open>
  Claim C1. \<^verbatim>\<open>NewDatabase\<close> sets the client's default write policy to \<^verbatim>\<open>REPLACE\<close>, and
  \<^verbatim>\<open>Set\<close> writes under the default policy (it passes nil). With the reference library
  behind the facade, a database that carries the write policy \<^verbatim>\<open>NewDatabase\<close> configured,
  a store that is online and an id the key builder accepts: after \<^verbatim>\<open>Set\<close> of \<open>o1\<close> and
  then \<^verbatim>\<open>Set\<close> of \<open>o2\<close> under the same table and id, both without error, \<^verbatim>\<open>GetMap\<close>
  returns exactly the encoding of \<open>o2\<close>; a field that is not in the encoding of \<open>o2\<close> is
  not in the map returned, whether or not the encoding of \<open>o1\<close> had it.
\<close>

theorem Set_is_full_replace:
  assumes "NewDatabase (mem_Library net) host port ns tables = Returns db0"
    and "DefaultWritePolicy (Client db) = DefaultWritePolicy (Client db0)"
    and "id' \<noteq> []" and "online (server (Client db))"
  shows "fst (Set_db (mem_Library net) db table id' o1) = None
    \<and> fst (Set_db (mem_Library net) (snd (Set_db (mem_Library net) db table id' o1))
          table id' o2) = None
    \<and> fst (GetMap (mem_Library net)
          (snd (Set_db (mem_Library net) (snd (Set_db (mem_Library net) db table id' o1))
            table id' o2)) table id')
        = (Some (Encode o2), None)
    \<and> (\<forall>bins field. fst (fst (GetMap (mem_Library net)
            (snd (Set_db (mem_Library net) (snd (Set_db (mem_Library net) db table id' o1))
              table id' o2)) table id')) = Some bins
          \<and> Encode o2 field = None \<longrightarrow> bins field = None)"
proof -
  let ?L = "mem_Library net"
  let ?db1 = "snd (Set_db ?L db table id' o1)"
  let ?db2 = "snd (Set_db ?L ?db1 table id' o2)"
  from NewDatabase_REPLACE [OF assms(1)] assms(2)
  have replace: "RecordExistsAction (DefaultWritePolicy (Client db)) = REPLACE"
    by simp
  note first = mem_Set_REPLACE [OF assms(3,4) replace, of net table o1]
  from first(4) replace
  have replace1: "RecordExistsAction (DefaultWritePolicy (Client ?db1)) = REPLACE"
    by simp
  note second = mem_Set_REPLACE [OF assms(3) first(2) replace1, of net table o2]
  from second(5) first(3)
  have stored: "records (server (Client ?db2)) (Key (namespace ?db2) table id') = Some (Encode o2)"
    by (simp add: second(3))
  have read: "fst (GetMap ?L ?db2 table id') = (Some (Encode o2), None)"
    by (simp add: mem_GetMap [OF assms(3) second(2)] stored)
  then have absent: "\<forall>bins field. fst (fst (GetMap ?L ?db2 table id')) = Some bins
      \<and> Encode o2 field = None \<longrightarrow> bins field = None"
    by auto
  from first(1) second(1) read absent show ?thesis
    by (intro conjI)
qed

lemma Encode_ann: "Encode ann = [''firstName'' \<mapsto> StringValue ''Ann'', ''age'' \<mapsto> IntegerValue 30]"
  by (simp add: Encode_def ann_def User_def)

lemma Encode_bob: "Encode bob = [''firstName'' \<mapsto> StringValue ''Bob'']"
  by (simp add: Encode_def bob_def Guest_def)

theorem Set_is_full_replace_witness:
  "NewDatabase (mem_Library example_net) ''127.0.0.1'' 3000 ''test''
      [Some (PtrType User), Some (PtrType UserStream)] = Returns example_db
   \<and> online (server (Client example_db)) \<and> ''123'' \<noteq> ([] :: string)
   \<and> Encode ann ''age'' = Some (IntegerValue 30)
   \<and> Encode bob ''age'' = None
   \<and> fst (GetMap example_lib
         (snd (Set_db example_lib (snd (Set_db example_lib example_db ''User'' ''123'' ann))
           ''User'' ''123'' bob)) ''User'' ''123'')
       = (Some [''firstName'' \<mapsto> StringValue ''Bob''], None)"
proof -
  have id: "''123'' \<noteq> ([] :: string)"
    by simp
  note built = NewDatabase_example [unfolded example_lib_def]
  note replaced = Set_is_full_replace [OF built refl id example_online, of "''User''" ann bob,
      folded example_lib_def]
  from replaced have "fst (GetMap example_lib
         (snd (Set_db example_lib (snd (Set_db example_lib example_db ''User'' ''123'' ann))
           ''User'' ''123'' bob)) ''User'' ''123'')
       = (Some (Encode bob), None)"
    by (elim conjE)
  then have "fst (GetMap example_lib
         (snd (Set_db example_lib (snd (Set_db example_lib example_db ''User'' ''123'' ann))
           ''User'' ''123'' bob)) ''User'' ''123'')
       = (Some [''firstName'' \<mapsto> StringValue ''Bob''], None)"
    by (simp only: Encode_bob)
  moreover have "Encode ann ''age'' = Some (IntegerValue 30)" and "Encode bob ''age'' = None"
    by (simp_all add: Encode_ann Encode_bob)
  ultimately show ?thesis
    using built example_online id by (intro conjI)
qed

text \<open>
  Without the policy \<^verbatim>\<open>NewDatabase\<close> configures, the same two writes merge: under the
  library's default the field of the first object stays in the record.
\<close>

lemma merge_under_default_policy:
  "fst (GetMap example_lib
     (snd (Set_db example_lib
       (snd (Set_db example_lib
         (example_db\<lparr>Client := example_client\<lparr>DefaultWritePolicy :=
            \<lparr>RecordExistsAction = UPDATE\<rparr>\<rparr>\<rparr>) ''User'' ''123'' ann))
       ''User'' ''123'' bob)) ''User'' ''123'')
   = (Some [''firstName'' \<mapsto> StringValue ''Bob'', ''age'' \<mapsto> IntegerValue 30], None)"
  by (simp add: GetMap_def Set_db_def Client_Get_def Client_PutObject_def traced_def
      mem_Get_def mem_PutObject_def mem_NewKey_def Let_def Encode_ann Encode_bob
      map_add_def fun_eq_iff example_defs)


section \<open>The round trip through the record codec\<close>

lemma Encode_fields_other:
  assumes "n \<notin> set (storage_names fs)"
  shows "Encode_fields fs vs bins n = bins n"
  using assms
proof (induction fs vs bins rule: Encode_fields.induct)
  case (1 f fs v vs bins)
  show ?case
  proof (cases "Tag f")
    case None
    with 1 show ?thesis
      by simp
  next
    case (Some a)
    with "1.prems" have other: "n \<noteq> a" and "n \<notin> set (storage_names fs)"
      by auto
    with "1.IH" Some have "Encode_fields fs vs (bins(a \<mapsto> v)) n = (bins(a \<mapsto> v)) n"
      by (simp del: fun_upd_apply)
    with Some other show ?thesis
      by simp
  qed
qed simp_all

lemma Encode_fields_tagged:
  assumes "distinct (storage_names fs)" and "length vs = length fs"
    and "i < length fs" and "Tag (fs ! i) = Some n"
  shows "Encode_fields fs vs bins n = Some (vs ! i)"
  using assms
proof (induction fs vs bins arbitrary: i rule: Encode_fields.induct)
  case (1 f fs v vs bins)
  show ?case
  proof (cases i)
    case 0
    with "1.prems" have tag: "Tag f = Some n" and fresh: "n \<notin> set (storage_names fs)"
      by auto
    with 0 show ?thesis
      by (simp add: Encode_fields_other)
  next
    case (Suc j)
    with "1.prems" have "distinct (storage_names fs)" and "length vs = length fs"
      and "j < length fs" and "Tag (fs ! j) = Some n"
      by (auto split: option.splits)
    from "1.IH" [OF this] Suc show ?thesis
      by simp
  qed
qed simp_all

lemma Decode_fields_zero:
  assumes "length vs = length fs" and "map kind_of vs = map Kind fs"
    and "\<forall>i<length fs. \<forall>n. Tag (fs ! i) = Some n \<longrightarrow> bins n = Some (vs ! i)"
  shows "Decode_fields bins fs (map (\<lambda>f. zero_value (Kind f)) fs) = (tagged_values fs vs, None)"
  using assms
proof (induction fs arbitrary: vs)
  case Nil
  then show ?case by simp
next
  case (Cons f fs)
  from Cons.prems(1) obtain v ws where vs: "vs = v # ws"
    by (cases vs) auto
  with Cons.prems have len: "length ws = length fs" and kinds: "map kind_of ws = map Kind fs"
    and kind: "kind_of v = Kind f"
    by simp_all
  have "\<forall>i<length fs. \<forall>n. Tag (fs ! i) = Some n \<longrightarrow> bins n = Some (ws ! i)"
  proof (intro allI impI)
    fix i n
    assume "i < length fs" and "Tag (fs ! i) = Some n"
    with Cons.prems(3) [rule_format, of "Suc i" n] vs show "bins n = Some (ws ! i)"
      by simp
  qed
  from Cons.IH [OF len kinds this]
  have rest: "Decode_fields bins fs (map (\<lambda>f. zero_value (Kind f)) fs)
      = (tagged_values fs ws, None)" .
  show ?case
  proof (cases "Tag f")
    case None
    with rest vs show ?thesis
      by simp
  next
    case (Some n)
    with Cons.prems(3) [rule_format, of 0 n] vs have "bins n = Some v"
      by simp
    with Some rest vs kind show ?thesis
      by simp
  qed
qed

lemma same_tagged_values:
  assumes "length vs = length fs"
  shows "same_tagged fs (tagged_values fs vs) vs"
  using assms
proof (induction fs arbitrary: vs)
  case Nil
  then show ?case by simp
next
  case (Cons f fs)
  then obtain v ws where "vs = v # ws"
    by (cases vs) auto
  with Cons show ?case
    by (cases "Tag f") simp_all
qed

lemma Decode_stored:
  assumes "instance_of t obj" and "distinct (storage_names (type_Fields t))"
    and "bins = Encode obj \<or> bins = old ++ Encode obj"
  shows "Decode bins (zero_Object t)
    = (\<lparr>obj_type = t, obj_values = tagged_values (type_Fields t) (obj_values obj)\<rparr>, None)"
proof -
  let ?fs = "type_Fields t" and ?vs = "obj_values obj"
  from assms(1) have type: "obj_type obj = t" and kinds: "map kind_of ?vs = map Kind ?fs"
    by (simp_all add: instance_of_def)
  from kinds have len: "length ?vs = length ?fs"
    by (rule map_eq_imp_length_eq)
  have "\<forall>i<length ?fs. \<forall>n. Tag (?fs ! i) = Some n \<longrightarrow> bins n = Some (?vs ! i)"
  proof (intro allI impI)
    fix i n
    assume "i < length ?fs" and "Tag (?fs ! i) = Some n"
    from Encode_fields_tagged [OF assms(2) len this]
    have "Encode obj n = Some (?vs ! i)"
      by (simp add: Encode_def type)
    with assms(3) show "bins n = Some (?vs ! i)"
      by (auto simp add: map_add_def)
  qed
  from Decode_fields_zero [OF len kinds this] show ?thesis
    by (simp add: Decode_def zero_Object_def)
qed

text \<open>
  Claim C2, as amended. With the reference library behind the facade, a store that is online and an
  id the key builder accepts: let \<open>table\<close> be registered with type \<open>t\<close>, whose storage tags
  are pairwise distinct, and let \<open>obj\<close> be an instance of \<open>t\<close>. Then \<^verbatim>\<open>Set\<close> of \<open>obj\<close>
  succeeds, and \<^verbatim>\<open>Get\<close> right after it returns, without error, an instance of \<open>t\<close> that
  agrees with \<open>obj\<close> on every field that carries a storage tag (a field without one comes
  back as its zero value). This holds under either write mode.
\<close>

theorem Set_then_Get_round_trip:
  assumes "types db table = Some t" and "instance_of t obj"
    and "distinct (storage_names (type_Fields t))"
    and "id' \<noteq> []" and "online (server (Client db))"
  shows "fst (Set_db (mem_Library net) db table id' obj) = None
    \<and> fst (Get (mem_Library net) (snd (Set_db (mem_Library net) db table id' obj)) table id')
        = (Some \<lparr>obj_type = t, obj_values = tagged_values (type_Fields t) (obj_values obj)\<rparr>,
           None)
    \<and> same_tagged (type_Fields t) (tagged_values (type_Fields t) (obj_values obj))
        (obj_values obj)"
proof -
  let ?L = "mem_Library net"
  let ?db1 = "snd (Set_db ?L db table id' obj)"
  let ?key = "Key (namespace db) table id'"
  have set: "fst (Set_db ?L db table id' obj) = None"
    by (simp add: mem_Set_db [OF assms(4,5)])
  have online1: "online (server (Client ?db1))" and ns1: "namespace ?db1 = namespace db"
    and types1: "types ?db1 table = Some t"
    using assms(1,5) by (simp_all add: mem_Set_db [OF assms(4,5)])
  obtain bins where stored: "records (server (Client ?db1)) ?key = Some bins"
    and bins: "bins = Encode obj \<or> (\<exists>old. bins = old ++ Encode obj)"
    by (cases "RecordExistsAction (DefaultWritePolicy (Client db))";
        cases "records (server (Client db)) ?key")
      (auto simp add: mem_Set_db [OF assms(4,5)])
  from bins obtain old where "bins = Encode obj \<or> bins = old ++ Encode obj"
    by auto
  from Decode_stored [OF assms(2,3) this]
  have decoded: "Decode bins (zero_Object t)
      = (\<lparr>obj_type = t, obj_values = tagged_values (type_Fields t) (obj_values obj)\<rparr>, None)" .
  from stored have "records (server (Client ?db1)) (Key (namespace ?db1) table id') = Some bins"
    by (simp add: ns1)
  from mem_Get [OF assms(4) online1 types1 this] decoded
  have get: "fst (Get ?L ?db1 table id')
      = (Some \<lparr>obj_type = t, obj_values = tagged_values (type_Fields t) (obj_values obj)\<rparr>,
         None)"
    by simp
  from assms(2) have "length (obj_values obj) = length (type_Fields t)"
    by (auto simp add: instance_of_def dest: map_eq_imp_length_eq)
  then have same: "same_tagged (type_Fields t) (tagged_values (type_Fields t) (obj_values obj))
      (obj_values obj)"
    by (rule same_tagged_values)
  from set get same show ?thesis
    by (intro conjI)
qed

theorem Set_then_Get_round_trip_witness:
  "types example_db ''User'' = Some User \<and> instance_of User ann
   \<and> distinct (storage_names (type_Fields User))
   \<and> ''123'' \<noteq> ([] :: string) \<and> online (server (Client example_db))
   \<and> fst (Set_db example_lib example_db ''User'' ''123'' ann) = None
   \<and> fst (Get example_lib (snd (Set_db example_lib example_db ''User'' ''123'' ann))
         ''User'' ''123'')
       = (Some \<lparr>obj_type = User,
                obj_values = [StringValue ''Ann'', IntegerValue 30, StringValue []]\<rparr>, None)"
proof -
  have instance_ann: "instance_of User ann"
    by (simp add: instance_of_def ann_def User_def)
  have tags: "distinct (storage_names (type_Fields User))"
    by (simp add: User_def)
  have id: "''123'' \<noteq> ([] :: string)"
    by simp
  note trip = Set_then_Get_round_trip [OF example_User instance_ann tags id example_online,
      of example_net, folded example_lib_def]
  have "tagged_values (type_Fields User) (obj_values ann)
      = [StringValue ''Ann'', IntegerValue 30, StringValue []]"
    by (simp add: User_def ann_def)
  with trip have "fst (Set_db example_lib example_db ''User'' ''123'' ann) = None
      \<and> fst (Get example_lib (snd (Set_db example_lib example_db ''User'' ''123'' ann))
          ''User'' ''123'')
        = (Some \<lparr>obj_type = User,
                 obj_values = [StringValue ''Ann'', IntegerValue 30, StringValue []]\<rparr>, None)"
    by simp
  with example_User instance_ann tags example_online show ?thesis
    by (intro conjI) simp_all
qed

text \<open>
  The claim as written fails for a type whose storage tags are not distinct: both fields
  of \<^verbatim>\<open>Twin\<close> are stored under the one name, the later value wins, and \<^verbatim>\<open>Get\<close> returns it
  in both fields.
\<close>

theorem round_trip_counterexample:
  "NewDatabase example_lib ''127.0.0.1'' 3000 ''test'' [Some (PtrType Twin)] = Returns pair_db
   \<and> types pair_db ''Twin'' = Some Twin \<and> instance_of Twin pair_ab
   \<and> fst (Set_db example_lib pair_db ''Twin'' ''1'' pair_ab) = None
   \<and> fst (Get example_lib (snd (Set_db example_lib pair_db ''Twin'' ''1'' pair_ab)) ''Twin'' ''1'')
       = (Some \<lparr>obj_type = Twin, obj_values = [StringValue ''b'', StringValue ''b'']\<rparr>, None)
   \<and> \<not> same_tagged (type_Fields Twin) [StringValue ''b'', StringValue ''b'']
         (obj_values pair_ab)"
proof -
  have built: "NewDatabase example_lib ''127.0.0.1'' 3000 ''test'' [Some (PtrType Twin)]
      = Returns pair_db"
    by (simp add: NewDatabase_def mem_NewClientWithPolicy_def NewClientPolicy_def pair_db_def
        Twin_def example_defs)
  have registered: "types pair_db ''Twin'' = Some Twin"
    by (simp add: pair_db_def)
  have inst: "instance_of Twin pair_ab"
    by (simp add: instance_of_def pair_ab_def Twin_def)
  have id: "''1'' \<noteq> ([] :: string)"
    by simp
  have up: "online (server (Client pair_db))"
    and replace: "RecordExistsAction (DefaultWritePolicy (Client pair_db)) = REPLACE"
    by (simp_all add: pair_db_def example_db_def example_client_def)
  let ?db1 = "snd (Set_db (mem_Library example_net) pair_db ''Twin'' ''1'' pair_ab)"
  note set = mem_Set_REPLACE [OF id up replace, of example_net "''Twin''" pair_ab]
  from set(3,5) have stored:
    "records (server (Client ?db1)) (Key (namespace ?db1) ''Twin'' ''1'') = Some (Encode pair_ab)"
    by simp
  from Set_same_registry [of pair_db "mem_Library example_net" "''Twin''" "''1''" pair_ab]
    registered
  have registered1: "types ?db1 ''Twin'' = Some Twin"
    by (simp add: same_registry_def)
  have "Decode (Encode pair_ab) (zero_Object Twin)
      = (\<lparr>obj_type = Twin, obj_values = [StringValue ''b'', StringValue ''b'']\<rparr>, None)"
    by (simp add: Decode_def Encode_def zero_Object_def pair_ab_def Twin_def)
  with mem_Get [OF id set(2) registered1 stored]
  have read: "fst (Get (mem_Library example_net) ?db1 ''Twin'' ''1'')
      = (Some \<lparr>obj_type = Twin, obj_values = [StringValue ''b'', StringValue ''b'']\<rparr>, None)"
    by simp
  have differ: "\<not> same_tagged (type_Fields Twin) [StringValue ''b'', StringValue ''b'']
      (obj_values pair_ab)"
    by (simp add: Twin_def pair_ab_def)
  from built registered inst set(1) read differ show ?thesis
    unfolding example_lib_def by (intro conjI)
qed

end
